theory Spec2Isabelle
  imports Complex_Main "HOL-Library.AList" "HOL-Library.Sublist"
begin

section \<open>JavaScript values\<close>

text \<open>
  The front end is untyped JavaScript. Every value the pipeline handles is one of the
  shapes below. \<open>JNum\<close> is a finite number and \<open>JNaN\<close> the not-a-number value; the
  modelled code performs no arithmetic, it only tests numbers for truthiness, compares
  a length with zero and passes numbers through. An object is the list of its own
  properties in the order of their creation; a lookup takes the first entry of a key,
  and \<open>own_props\<close> lists the properties in the order in which JavaScript enumerates
  them. A string is a list of 8-bit characters, each one UTF-16 code unit below 256
  (the Latin-1 range); text with higher code units is outside the model.
\<close>

datatype jsval =
    JUndefined
  | JNull
  | JBool bool
  | JNaN
  | JNum real
  | JStr string
  | JArr "jsval list"
  | JObj "(string \<times> jsval) list"

datatype error = TypeError | SyntaxError

text \<open>
  The primitives of the JavaScript runtime that convert between numbers and text
  (\<open>Number.prototype.toString\<close>, \<open>ToNumber\<close> on a string, \<open>parseFloat\<close>) are
  floating-point algorithms; they are parameters of the model.
\<close>

record js_runtime =
  num_to_string :: "real \<Rightarrow> string"
  string_to_number :: "string \<Rightarrow> jsval"
  parseFloat :: "jsval \<Rightarrow> jsval"

fun truthy :: "jsval \<Rightarrow> bool" where
  "truthy JUndefined = False"
| "truthy JNull = False"
| "truthy (JBool b) = b"
| "truthy JNaN = False"
| "truthy (JNum r) = (r \<noteq> 0)"
| "truthy (JStr s) = (s \<noteq> [])"
| "truthy (JArr xs) = True"
| "truthy (JObj kvs) = True"

fun nullish :: "jsval \<Rightarrow> bool" where
  "nullish JUndefined = True"
| "nullish JNull = True"
| "nullish v = False"

text \<open>\<open>a || b\<close>, \<open>a && b\<close>, \<open>!a\<close> and \<open>a === 'literal'\<close>.\<close>

definition js_or :: "jsval \<Rightarrow> jsval \<Rightarrow> jsval" where
  "js_or a b = (if truthy a then a else b)"

definition js_and :: "jsval \<Rightarrow> jsval \<Rightarrow> jsval" where
  "js_and a b = (if truthy a then b else a)"

definition js_not :: "jsval \<Rightarrow> jsval" where
  "js_not a = JBool (\<not> truthy a)"

definition js_eq_str :: "jsval \<Rightarrow> string \<Rightarrow> jsval" where
  "js_eq_str a s = JBool (a = JStr s)"

text \<open>Decimal text of an array index, as used for the index keys of arrays and strings.\<close>

fun show_nat :: "nat \<Rightarrow> string" where
  "show_nat n =
     (if n < 10 then [''0123456789'' ! n]
      else show_nat (n div 10) @ [''0123456789'' ! (n mod 10)])"

definition index_keys :: "nat \<Rightarrow> string list" where
  "index_keys n = map show_nat [0..<n]"

text \<open>
  An array index is the canonical decimal text of a number below \<open>2^32 - 1\<close>. The own
  keys of an object are enumerated with the array indices first, in ascending numeric
  order, and the other keys after them in the order of their creation; every key once.
\<close>

definition is_digit :: "char \<Rightarrow> bool" where
  "is_digit c = (c \<in> set ''0123456789'')"

definition index_value :: "string \<Rightarrow> int" where
  "index_value k = foldl (\<lambda>n c. 10 * n + (of_char c - 48)) 0 k"

definition is_array_index :: "string \<Rightarrow> bool" where
  "is_array_index k =
     (k \<noteq> [] \<and> list_all is_digit k \<and> (hd k = CHR ''0'' \<longrightarrow> k = ''0'') \<and>
      index_value k < 4294967295)"

definition object_keys :: "(string \<times> jsval) list \<Rightarrow> string list" where
  "object_keys kvs =
     (let ks = map fst (AList.clearjunk kvs)
      in sort_key index_value (filter is_array_index ks) @ filter (\<lambda>k. \<not> is_array_index k) ks)"

text \<open>
  The own enumerable properties of a value, as \<open>{...v}\<close> and \<open>Object.keys(v)\<close> see them.
\<close>

fun own_props :: "jsval \<Rightarrow> (string \<times> jsval) list" where
  "own_props (JObj kvs) =
     map (\<lambda>k. (k, case map_of kvs k of Some v \<Rightarrow> v | None \<Rightarrow> JUndefined)) (object_keys kvs)"
| "own_props (JArr xs) = zip (index_keys (length xs)) xs"
| "own_props (JStr s) = zip (index_keys (length s)) (map (\<lambda>c. JStr [c]) s)"
| "own_props v = []"

text \<open>
  Property read \<open>v.k\<close> / \<open>v[k]\<close>. On \<open>null\<close> and \<open>undefined\<close> JavaScript throws a
  TypeError; every call site of the model that the source does not guard tests
  \<open>nullish\<close> first, and \<open>get_prop\<close> itself answers \<open>JUndefined\<close> there. Inherited
  prototype members are not modelled: the property names the code reads (vessel, events,
  name, start_time, ...) are not among them, except \<open>length\<close> of arrays and strings.
\<close>

fun get_prop :: "jsval \<Rightarrow> string \<Rightarrow> jsval" where
  "get_prop (JObj kvs) k = (case map_of kvs k of Some v \<Rightarrow> v | None \<Rightarrow> JUndefined)"
| "get_prop (JArr xs) k =
     (if k = ''length'' then JNum (real (length xs))
      else case map_of (own_props (JArr xs)) k of Some v \<Rightarrow> v | None \<Rightarrow> JUndefined)"
| "get_prop (JStr s) k =
     (if k = ''length'' then JNum (real (length s))
      else case map_of (own_props (JStr s)) k of Some v \<Rightarrow> v | None \<Rightarrow> JUndefined)"
| "get_prop v k = JUndefined"

text \<open>\<open>sep.join\<close> on already converted pieces.\<close>

fun join_with :: "string \<Rightarrow> string list \<Rightarrow> string" where
  "join_with sep [] = []"
| "join_with sep [x] = x"
| "join_with sep (x # y # ys) = x @ sep @ join_with sep (y # ys)"

text \<open>
  \<open>ToString\<close>, as a template literal applies it; inside \<open>Array.prototype.join\<close> the
  elements \<open>null\<close> and \<open>undefined\<close> become the empty string.
\<close>

fun to_string :: "js_runtime \<Rightarrow> jsval \<Rightarrow> string" where
  "to_string rt JUndefined = ''undefined''"
| "to_string rt JNull = ''null''"
| "to_string rt (JBool b) = (if b then ''true'' else ''false'')"
| "to_string rt JNaN = ''NaN''"
| "to_string rt (JNum r) = num_to_string rt r"
| "to_string rt (JStr s) = s"
| "to_string rt (JArr xs) =
     join_with '','' (map (\<lambda>x. if nullish x then [] else to_string rt x) xs)"
| "to_string rt (JObj kvs) = ''[object Object]''"

definition js_join :: "js_runtime \<Rightarrow> string \<Rightarrow> jsval list \<Rightarrow> string" where
  "js_join rt sep xs = join_with sep (map (\<lambda>x. if nullish x then [] else to_string rt x) xs)"

fun to_number :: "js_runtime \<Rightarrow> jsval \<Rightarrow> jsval" where
  "to_number rt JUndefined = JNaN"
| "to_number rt JNull = JNum 0"
| "to_number rt (JBool b) = JNum (if b then 1 else 0)"
| "to_number rt JNaN = JNaN"
| "to_number rt (JNum r) = JNum r"
| "to_number rt (JStr s) = string_to_number rt s"
| "to_number rt (JArr xs) = string_to_number rt (to_string rt (JArr xs))"
| "to_number rt (JObj kvs) = string_to_number rt (to_string rt (JObj kvs))"

text \<open>\<open>a > r\<close> for a numeric literal \<open>r\<close>: the left operand is converted to a number.\<close>

definition js_gt_num :: "js_runtime \<Rightarrow> jsval \<Rightarrow> real \<Rightarrow> jsval" where
  "js_gt_num rt a r = JBool (case to_number rt a of JNum x \<Rightarrow> r < x | _ \<Rightarrow> False)"

section \<open>Missing-time flag of the event table (EventTable.isMissingTime, src/unnamed/part_001)\<close>

definition isMissingTime :: "jsval \<Rightarrow> error + jsval" where
  "isMissingTime event =
     (if nullish event then Inl TypeError
      else
        let start = get_prop event ''start_time'';
            endv = get_prop event ''end_time''
        in Inr (js_or (js_or (js_or (js_or (js_not start) (js_not endv))
                                   (js_eq_str start ''--:--''))
                             (js_eq_str endv ''--:--''))
                      (js_and (js_eq_str start ''00:00'') (js_eq_str endv ''00:00''))))"

section \<open>Validation gate and sanitizer (utils/dataCleanup.js)\<close>

definition validateExtractedData :: "js_runtime \<Rightarrow> jsval \<Rightarrow> jsval" where
  "validateExtractedData rt data =
     js_and (js_and (js_and data (get_prop data ''vessel'')) (get_prop data ''events''))
            (js_gt_num rt (get_prop (get_prop data ''events'') ''length'') 0)"

text \<open>
  \<open>data.events?.filter(event => event && event.name)\<close>: the optional call answers
  \<open>undefined\<close> on a nullish receiver, filters an array, and throws on any other
  receiver (it has no callable \<open>filter\<close>).
\<close>

definition keep_event :: "jsval \<Rightarrow> bool" where
  "keep_event event = truthy (js_and event (get_prop event ''name''))"

fun optional_filter :: "jsval \<Rightarrow> error + jsval" where
  "optional_filter JUndefined = Inr JUndefined"
| "optional_filter JNull = Inr JUndefined"
| "optional_filter (JArr xs) = Inr (JArr (filter keep_event xs))"
| "optional_filter v = Inl TypeError"

definition sanitizeDataBeforeSave :: "jsval \<Rightarrow> error + jsval" where
  "sanitizeDataBeforeSave data =
     (if \<not> truthy data then Inr JNull
      else case optional_filter (get_prop data ''events'') of
             Inl e \<Rightarrow> Inl e
           | Inr filtered \<Rightarrow>
               Inr (JObj (AList.update ''events'' (js_or filtered (JArr [])) (own_props data))))"

section \<open>CSV heuristic extractor (LayspanDashboard, src/unnamed/part_005)\<close>

text \<open>
  \<open>String.prototype.trim\<close> and \<open>split\<close> on a one-character separator. Below 256 the
  white space and line terminators that \<open>trim\<close> strips are the tab, the line feed, the
  vertical tab, the form feed, the carriage return, the space and the no-break space.
\<close>

definition is_space :: "char \<Rightarrow> bool" where
  "is_space c =
     (c \<in> set [CHR '' '', CHR 0x09, CHR 0x0A, CHR 0x0B, CHR 0x0C, CHR 0x0D, CHR 0xA0])"

definition trim :: "string \<Rightarrow> string" where
  "trim s = rev (dropWhile is_space (rev (dropWhile is_space s)))"

fun split_on :: "char \<Rightarrow> string \<Rightarrow> string list" where
  "split_on c [] = [[]]"
| "split_on c (x # xs) =
     (if x = c then [] # split_on c xs
      else case split_on c xs of
             w # ws \<Rightarrow> (x # w) # ws
           | [] \<Rightarrow> [[x]])"

text \<open>\<open>values[index]\<close> on an array of strings: \<open>undefined\<close> past the end.\<close>

definition str_at :: "string list \<Rightarrow> nat \<Rightarrow> jsval" where
  "str_at values i = (if i < length values then JStr (values ! i) else JUndefined)"

text \<open>
  \<open>row[header] = values[index] || ''\<close>. Assigning a string to the key \<open>__proto__\<close> of
  an object literal creates no property.
\<close>

definition assign_cell ::
  "string list \<Rightarrow> (string \<times> jsval) list \<Rightarrow> nat \<times> string \<Rightarrow> (string \<times> jsval) list" where
  "assign_cell values row ih =
     (if snd ih = ''__proto__'' then row
      else AList.update (snd ih) (js_or (str_at values (fst ih)) (JStr [])) row)"

definition csv_row :: "string list \<Rightarrow> string \<Rightarrow> (string \<times> jsval) list" where
  "csv_row headers line =
     (let values = map trim (split_on CHR '','' line)
      in foldl (assign_cell values) [] (zip [0..<length headers] headers))"

definition csv_lines :: "string \<Rightarrow> string list" where
  "csv_lines text = filter (\<lambda>line. trim line \<noteq> []) (split_on CHR 0x0A text)"

definition vessel_of :: "(string \<times> jsval) list \<Rightarrow> jsval" where
  "vessel_of row =
     js_or (js_or (js_or (js_or (get_prop (JObj row) ''Vessel'') (get_prop (JObj row) ''vessel''))
                         (get_prop (JObj row) ''VESSEL''))
                  (get_prop (JObj row) ''Vessel Name''))
           (get_prop (JObj row) ''vessel_name'')"

text \<open>The scan \<open>for (let i = 0; i < Math.min(5, csvData.length); i++)\<close> with its \<open>break\<close>.\<close>

function find_vessel_row ::
  "nat \<Rightarrow> (string \<times> jsval) list list \<Rightarrow> (string \<times> jsval) list option" where
  "find_vessel_row i csvData =
     (if i < min 5 (length csvData) then
        (if truthy (vessel_of (csvData ! i)) then Some (csvData ! i)
         else find_vessel_row (i + 1) csvData)
      else None)"
  by pat_completeness auto
termination
  by (relation "measure (\<lambda>(i, csvData). min 5 (length csvData) - i)") auto

declare find_vessel_row.simps [simp del]

definition event_name_of :: "(string \<times> jsval) list \<Rightarrow> jsval" where
  "event_name_of row =
     js_or (js_or (get_prop (JObj row) ''Event'') (get_prop (JObj row) ''event''))
           (get_prop (JObj row) ''Event Name'')"

definition csv_event :: "(string \<times> jsval) list \<Rightarrow> jsval" where
  "csv_event row =
     JObj [(''name'', js_or (event_name_of row) (JStr ''Unknown Event'')),
           (''start'', js_or (js_or (js_or (get_prop (JObj row) ''Start Time'')
                                          (get_prop (JObj row) ''start_time''))
                                   (get_prop (JObj row) ''Start''))
                            (JStr ''00:00'')),
           (''end'', js_or (js_or (js_or (get_prop (JObj row) ''End Time'')
                                        (get_prop (JObj row) ''end_time''))
                                 (get_prop (JObj row) ''End''))
                          (JStr ''00:00''))]"

definition csv_events :: "(string \<times> jsval) list list \<Rightarrow> jsval list" where
  "csv_events csvData = map csv_event (filter (\<lambda>row. truthy (event_name_of row)) csvData)"

definition vessel_record ::
  "js_runtime \<Rightarrow> (string \<times> jsval) list \<Rightarrow> (string \<times> jsval) list list \<Rightarrow> jsval" where
  "vessel_record rt vesselRow csvData =
     (let r = JObj vesselRow in
      JObj [(''vessel'', js_or (vessel_of vesselRow) (JStr ''Unknown Vessel'')),
            (''voyageFrom'', js_or (js_or (js_or (get_prop r ''Voyage From'') (get_prop r ''voyage_from''))
                                         (get_prop r ''From''))
                                  (JStr ''Unknown'')),
            (''voyageTo'', js_or (js_or (js_or (get_prop r ''Voyage To'') (get_prop r ''voyage_to''))
                                       (get_prop r ''To''))
                                (JStr ''Unknown'')),
            (''cargo'', js_or (js_or (js_or (get_prop r ''Cargo'') (get_prop r ''cargo''))
                                    (get_prop r ''Cargo Type''))
                             (JStr ''Unknown Cargo'')),
            (''port'', js_or (js_or (js_or (get_prop r ''Port'') (get_prop r ''port''))
                                   (get_prop r ''Port Name''))
                            (JStr ''Unknown Port'')),
            (''operation'', js_or (js_or (get_prop r ''Operation'') (get_prop r ''operation''))
                                 (JStr ''Discharge'')),
            (''demurragePerDay'', js_or (js_or (parseFloat rt (get_prop r ''Demurrage''))
                                              (parseFloat rt (get_prop r ''Demurrage Rate'')))
                                       (JNum 5000)),
            (''dispatchPerDay'', js_or (js_or (parseFloat rt (get_prop r ''Dispatch''))
                                             (parseFloat rt (get_prop r ''Dispatch Rate'')))
                                      (JNum 2500)),
            (''loadRatePerDay'', js_or (js_or (parseFloat rt (get_prop r ''Load Rate''))
                                             (parseFloat rt (get_prop r ''Loading Rate'')))
                                      (JNum 10000)),
            (''cargoQtyMt'', js_or (js_or (parseFloat rt (get_prop r ''Cargo Qty''))
                                         (parseFloat rt (get_prop r ''Quantity'')))
                                  (JNum 47000)),
            (''events'', JArr (csv_events csvData)),
            (''sourceFile'', JStr ''CSV Upload'')])"

text \<open>
  \<open>extractVesselDataFromCsv\<close>; \<open>csvData\<close> is the array of row objects that
  \<open>processCsvFile\<close> builds, \<open>JNull\<close> is the \<open>null\<close> it returns.
\<close>

definition extractVesselDataFromCsv ::
  "js_runtime \<Rightarrow> (string \<times> jsval) list list \<Rightarrow> jsval" where
  "extractVesselDataFromCsv rt csvData =
     (if csvData = [] then JNull
      else
        let found = find_vessel_row 0 csvData;
            vesselRow = (case found of
                           None \<Rightarrow> (if 0 < length csvData then Some (csvData ! 0) else None)
                         | Some row \<Rightarrow> Some row)
        in case vesselRow of
             Some row \<Rightarrow> vessel_record rt row csvData
           | None \<Rightarrow> JNull)"

text \<open>
  \<open>processCsvFile\<close> on the text of the dropped file: \<open>Inl\<close> is the text of the alert
  (the page keeps its previous extraction), \<open>Inr\<close> the new value of \<open>extractedData\<close>.
  Reading \<open>lines[0]\<close> of a file without a non-blank line throws, which the handler
  catches.
\<close>

definition processCsvFile :: "js_runtime \<Rightarrow> string \<Rightarrow> string + jsval" where
  "processCsvFile rt text =
     (case csv_lines text of
        [] \<Rightarrow> Inl ''Error processing CSV file.''
      | header # rest \<Rightarrow>
          let headers = map trim (split_on CHR '','' header);
              data = map (csv_row headers) rest;
              vesselData = extractVesselDataFromCsv rt data
          in if \<not> truthy vesselData then Inl ''Could not extract vessel data from CSV.''
             else Inr vesselData)"

section \<open>Editable event store (LayspanDashboard.handleEventUpdate)\<close>

text \<open>\<open>[...v]\<close>: arrays and strings are iterable, anything else throws.\<close>

fun spread_iterable :: "jsval \<Rightarrow> error + jsval list" where
  "spread_iterable (JArr xs) = Inr xs"
| "spread_iterable (JStr s) = Inr (map (\<lambda>c. JStr [c]) s)"
| "spread_iterable v = Inl TypeError"

text \<open>\<open>xs[i]\<close> and \<open>xs[i] = v\<close> on an array; a write past the end extends the array.\<close>

definition arr_at :: "jsval list \<Rightarrow> nat \<Rightarrow> jsval" where
  "arr_at xs i = (if i < length xs then xs ! i else JUndefined)"

definition arr_set :: "jsval list \<Rightarrow> nat \<Rightarrow> jsval \<Rightarrow> jsval list" where
  "arr_set xs i v =
     (if i < length xs then xs[i := v]
      else xs @ replicate (i - length xs) JUndefined @ [v])"

definition handleEventUpdate :: "jsval \<Rightarrow> nat \<Rightarrow> jsval \<Rightarrow> error + jsval" where
  "handleEventUpdate extractedData index updatedEvent =
     (if truthy (js_and extractedData (get_prop extractedData ''events'')) then
        (case spread_iterable (get_prop extractedData ''events'') of
           Inl e \<Rightarrow> Inl e
         | Inr updatedEvents \<Rightarrow>
             if nullish updatedEvent then Inl TypeError
             else
               let replaced =
                     JObj (AList.update ''end_time'' (get_prop updatedEvent ''end_time'')
                          (AList.update ''start_time'' (get_prop updatedEvent ''start_time'')
                          (AList.update ''end'' (get_prop updatedEvent ''end_time'')
                          (AList.update ''start'' (get_prop updatedEvent ''start_time'')
                          (AList.update ''name'' (get_prop updatedEvent ''name'')
                             (own_props (arr_at updatedEvents index)))))))
               in Inr (JObj (AList.update ''events'' (JArr (arr_set updatedEvents index replaced))
                               (own_props extractedData))))
      else Inr extractedData)"

section \<open>External extraction client (services/api.js)\<close>

text \<open>
  What \<open>fetch\<close> and \<open>response.json()\<close> can do: reject, or answer with the \<open>ok\<close> flag and
  a body that parses to a value (\<open>None\<close>: the body is not JSON and \<open>json()\<close> rejects).
\<close>

datatype fetch_outcome = FetchRejected | FetchResponse bool "jsval option"

text \<open>The failure of the client; the argument is the message of the thrown \<open>Error\<close>.\<close>

datatype api_error = ExtractionUnavailable string

text \<open>\<open>EXTRACTOR_URL.replace(/\/$/, '')\<close>.\<close>

definition strip_trailing_slash :: "string \<Rightarrow> string" where
  "strip_trailing_slash u = (if u \<noteq> [] \<and> last u = CHR ''/'' then butlast u else u)"

definition extractEvents ::
  "string option \<Rightarrow> (string \<Rightarrow> 'b \<Rightarrow> fetch_outcome) \<Rightarrow> 'b \<Rightarrow> api_error + jsval" where
  "extractEvents EXTRACTOR_URL fetch formData =
     (case EXTRACTOR_URL of
        None \<Rightarrow> Inl (ExtractionUnavailable ''No extraction service configured'')
      | Some url \<Rightarrow>
          if url = [] then Inl (ExtractionUnavailable ''No extraction service configured'')
          else
            (case fetch (strip_trailing_slash url @ ''/extract'') formData of
               FetchRejected \<Rightarrow> Inl (ExtractionUnavailable ''Extraction service unavailable'')
             | FetchResponse ok body \<Rightarrow>
                 if \<not> ok then Inl (ExtractionUnavailable ''Extraction service unavailable'')
                 else
                   (case body of
                      None \<Rightarrow> Inl (ExtractionUnavailable ''Extraction service unavailable'')
                    | Some data \<Rightarrow>
                        if nullish data
                        then Inl (ExtractionUnavailable ''Extraction service unavailable'')
                        else Inr (JObj
                          [(''vessel'', js_or (get_prop data ''vessel'') (JStr ''Unknown Vessel'')),
                           (''cargo'', js_or (get_prop data ''cargo'') (JStr [])),
                           (''port'', js_or (get_prop data ''port'') (JStr [])),
                           (''events'', (case get_prop data ''events'' of
                                           JArr evs \<Rightarrow> JArr evs
                                         | _ \<Rightarrow> JArr []))]))))"

section \<open>Persistent record store (saveToLaytime in src/unnamed/part_005, loadSavedEvents in pages/SavedEvents.jsx)\<close>

text \<open>
  \<open>JSON.parse(JSON.stringify(v))\<close>: a property whose value is \<open>undefined\<close> is left out,
  an array element \<open>undefined\<close> and the number NaN are written as \<open>null\<close>.
\<close>

fun json_roundtrip :: "jsval \<Rightarrow> jsval"
  and json_props :: "(string \<times> jsval) list \<Rightarrow> (string \<times> jsval) list"
  and json_elems :: "jsval list \<Rightarrow> jsval list" where
  "json_roundtrip JUndefined = JUndefined"
| "json_roundtrip JNull = JNull"
| "json_roundtrip (JBool b) = JBool b"
| "json_roundtrip JNaN = JNull"
| "json_roundtrip (JNum r) = JNum r"
| "json_roundtrip (JStr s) = JStr s"
| "json_roundtrip (JArr xs) = JArr (json_elems xs)"
| "json_roundtrip (JObj kvs) = JObj (json_props kvs)"
| "json_props [] = []"
| "json_props (kv # kvs) =
     (if snd kv = JUndefined then json_props kvs
      else (fst kv, json_roundtrip (snd kv)) # json_props kvs)"
| "json_elems [] = []"
| "json_elems (x # xs) =
     (if x = JUndefined then JNull else json_roundtrip x) # json_elems xs"

text \<open>
  The value under the key \<open>saved_calculations\<close>: nothing (or the empty string), text
  that parses to a value, or text on which \<open>JSON.parse\<close> throws.
\<close>

datatype storage = Absent | Json jsval | Garbage

text \<open>The three readings of the clock that a save takes.\<close>

record clock =
  now_ms :: real
  locale_date :: string
  iso_string :: string

definition iso_date :: "clock \<Rightarrow> string" where
  "iso_date clk = (case split_on CHR ''T'' (iso_string clk) of d # ds \<Rightarrow> d | [] \<Rightarrow> [])"

text \<open>
  How a save ends, with the text of its alert. The two early returns are the gate's
  rejection; \<open>SaveFailed\<close> is the \<open>catch\<close> branch.
\<close>

datatype save_outcome = ValidationFailed string | SaveFailed string | Saved string

definition new_item :: "js_runtime \<Rightarrow> clock \<Rightarrow> jsval \<Rightarrow> jsval" where
  "new_item rt clk sanitizedData =
     JObj [(''id'', JNum (now_ms clk)),
           (''title'', JStr (to_string rt (get_prop sanitizedData ''vessel'') @ '' - '' @ locale_date clk)),
           (''date'', JStr (iso_date clk)),
           (''vessel'', get_prop sanitizedData ''vessel''),
           (''voyageFrom'', js_or (get_prop sanitizedData ''voyageFrom'') (JStr [])),
           (''voyageTo'', js_or (get_prop sanitizedData ''voyageTo'') (JStr [])),
           (''cargo'', js_or (get_prop sanitizedData ''cargo'') (JStr [])),
           (''port'', get_prop sanitizedData ''port''),
           (''operation'', js_or (get_prop sanitizedData ''operation'') (JStr ''Discharge'')),
           (''demurragePerDay'', js_or (get_prop sanitizedData ''demurragePerDay'') (JNum 0)),
           (''dispatchPerDay'', js_or (get_prop sanitizedData ''dispatchPerDay'') (JNum 0)),
           (''loadRatePerDay'', js_or (get_prop sanitizedData ''loadRatePerDay'') (JNum 0)),
           (''cargoQtyMt'', js_or (get_prop sanitizedData ''cargoQtyMt'') (JNum 0)),
           (''totalEvents'',
              (if truthy (get_prop sanitizedData ''events'')
               then get_prop (get_prop sanitizedData ''events'') ''length''
               else JNum 0)),
           (''status'', JStr ''saved''),
           (''extractedData'', sanitizedData),
           (''events'', js_or (get_prop sanitizedData ''events'') (JArr [])),
           (''createdAt'', JStr (iso_string clk)),
           (''sourceFile'', js_or (get_prop sanitizedData ''sourceFile'') (JStr ''Unknown''))]"

text \<open>The body of the \<open>try\<close> block of \<open>saveToLaytime\<close>: the storage it writes, or what it throws.\<close>

definition save_body :: "js_runtime \<Rightarrow> clock \<Rightarrow> jsval \<Rightarrow> storage \<Rightarrow> error + storage" where
  "save_body rt clk data st =
     (case sanitizeDataBeforeSave data of
        Inl e \<Rightarrow> Inl e
      | Inr sanitizedData \<Rightarrow>
          (case (case st of Absent \<Rightarrow> Inr (JArr []) | Json v \<Rightarrow> Inr v | Garbage \<Rightarrow> Inl SyntaxError) of
             Inl e \<Rightarrow> Inl e
           | Inr savedCalculations \<Rightarrow>
               (case savedCalculations of
                  JArr items \<Rightarrow> Inr (Json (json_roundtrip (JArr (new_item rt clk sanitizedData # items))))
                | _ \<Rightarrow> Inl TypeError)))"

definition saveToLaytime ::
  "js_runtime \<Rightarrow> clock \<Rightarrow> jsval \<Rightarrow> storage \<Rightarrow> save_outcome \<times> storage" where
  "saveToLaytime rt clk data st =
     (if \<not> truthy data then
        (ValidationFailed ''No data to save. Please extract data from a document first.'', st)
      else if \<not> truthy (validateExtractedData rt data) then
        (ValidationFailed
           ''Invalid or incomplete data. Cannot save. Please ensure all required fields are present.'',
         st)
      else
        (case save_body rt clk data st of
           Inr st' \<Rightarrow> (Saved ''Data saved successfully! You can view it in the Saved Events section.'', st')
         | Inl e \<Rightarrow> (SaveFailed ''Error saving data. Please try again.'', st)))"

text \<open>
  \<open>loadSavedEvents\<close>: the list it puts into the page state. Any exception (unparsable
  text, a stored value without \<open>filter\<close>) ends in the empty list.
\<close>

definition loadSavedEvents :: "js_runtime \<Rightarrow> storage \<Rightarrow> jsval list" where
  "loadSavedEvents rt st =
     (case st of
        Absent \<Rightarrow> []
      | Garbage \<Rightarrow> []
      | Json v \<Rightarrow>
          (case v of
             JArr savedCalculations \<Rightarrow>
               filter (\<lambda>calc. truthy (validateExtractedData rt calc)) savedCalculations
           | _ \<Rightarrow> []))"

section \<open>Export serializers\<close>

text \<open>
  \<open>exportToCSV\<close> of the dashboard and of the saved-events page (the two bodies are the
  same text): the name and content of the downloaded file, \<open>None\<close> when it returns
  without a download.
\<close>

definition export_row :: "js_runtime \<Rightarrow> jsval \<Rightarrow> error + string" where
  "export_row rt event =
     (if nullish event then Inl TypeError
      else Inr (js_join rt '',''
             [JStr ([CHR 0x22] @ to_string rt (get_prop event ''name'') @ [CHR 0x22]),
              get_prop event ''start'',
              get_prop event ''end'']))"

fun map_rows :: "('a \<Rightarrow> error + 'b) \<Rightarrow> 'a list \<Rightarrow> error + 'b list" where
  "map_rows f [] = Inr []"
| "map_rows f (x # xs) =
     (case f x of
        Inl e \<Rightarrow> Inl e
      | Inr y \<Rightarrow> (case map_rows f xs of Inl e \<Rightarrow> Inl e | Inr ys \<Rightarrow> Inr (y # ys)))"

definition exportToCSV :: "js_runtime \<Rightarrow> clock \<Rightarrow> jsval \<Rightarrow> error + (string \<times> string) option" where
  "exportToCSV rt clk data =
     (if \<not> truthy data \<or> \<not> truthy (get_prop data ''events'') then Inr None
      else
        (case get_prop data ''events'' of
           JArr events \<Rightarrow>
             (case map_rows (export_row rt) events of
                Inl e \<Rightarrow> Inl e
              | Inr rows \<Rightarrow>
                  Inr (Some (''laytime-events-'' @ iso_date clk @ ''.csv'',
                             join_with [CHR 0x0A]
                               (join_with '','' [''Event Name'', ''Start Time'', ''End Time''] # rows))))
         | _ \<Rightarrow> Inl TypeError))"

text \<open>\<open>convertToCSV\<close> of services/api.js, the serializer behind its \<open>exportToCSV\<close>.\<close>

definition escape_quotes :: "string \<Rightarrow> string" where
  "escape_quotes s = concat (map (\<lambda>c. if c = CHR 0x22 then [CHR 0x22, CHR 0x22] else [c]) s)"

definition csv_value :: "jsval \<Rightarrow> jsval" where
  "csv_value v =
     (case v of
        JStr s \<Rightarrow>
          if CHR '','' \<in> set s \<or> CHR 0x22 \<in> set s
          then JStr ([CHR 0x22] @ escape_quotes s @ [CHR 0x22])
          else v
      | _ \<Rightarrow> v)"

definition convert_row :: "js_runtime \<Rightarrow> string list \<Rightarrow> jsval \<Rightarrow> error + string" where
  "convert_row rt headers row =
     (if nullish row then Inl TypeError
      else Inr (js_join rt '','' (map (\<lambda>header. csv_value (get_prop row header)) headers)))"

definition convertToCSV :: "js_runtime \<Rightarrow> jsval \<Rightarrow> error + string" where
  "convertToCSV rt data =
     (if \<not> truthy data \<or> get_prop data ''length'' = JNum 0 then Inr []
      else if nullish (get_prop data ''0'') then Inl TypeError
      else
        let headers = map fst (own_props (get_prop data ''0'')) in
        (case spread_iterable data of
           Inl e \<Rightarrow> Inl e
         | Inr rows \<Rightarrow>
             (case map_rows (convert_row rt headers) rows of
                Inl e \<Rightarrow> Inl e
              | Inr csvRows \<Rightarrow> Inr (join_with [CHR 0x0A] (join_with '','' headers # csvRows)))))"

section \<open>Properties the specification names\<close>

text \<open>An event exposes a key when it is an object with an own property of that name.\<close>

definition exposes :: "jsval \<Rightarrow> string \<Rightarrow> bool" where
  "exposes event k = (case event of JObj kvs \<Rightarrow> map_of kvs k \<noteq> None | _ \<Rightarrow> False)"

definition exposes_both_schemas :: "jsval \<Rightarrow> bool" where
  "exposes_both_schemas event =
     list_all (exposes event) [''name'', ''start_time'', ''end_time'', ''event'', ''start'', ''end'']"

text \<open>
  The gate as the specification words it: the result is not null, its vessel is truthy
  and its events are a non-empty sequence.
\<close>

definition spec_IsValid :: "jsval \<Rightarrow> bool" where
  "spec_IsValid result =
     (\<not> nullish result \<and> truthy (get_prop result ''vessel'') \<and>
      (case get_prop result ''events'' of JArr evs \<Rightarrow> evs \<noteq> [] | _ \<Rightarrow> False))"

text \<open>
  The two quoting rules as the specification words them: a field is quoted when it
  contains a comma or a quote, with every quote inside it doubled; or a field is wrapped
  in quotes whatever it contains, the quotes inside it left alone.
\<close>

definition quoted_when_needed :: "string \<Rightarrow> string" where
  "quoted_when_needed s =
     (if CHR '','' \<in> set s \<or> CHR 0x22 \<in> set s
      then [CHR 0x22] @ concat (map (\<lambda>c. if c = CHR 0x22 then [CHR 0x22, CHR 0x22] else [c]) s)
             @ [CHR 0x22]
      else s)"

definition always_quoted :: "string \<Rightarrow> string" where
  "always_quoted s = [CHR 0x22] @ s @ [CHR 0x22]"

text \<open>The text of a value inside a joined line: nothing for \<open>null\<close> and \<open>undefined\<close>.\<close>

definition cell_text :: "js_runtime \<Rightarrow> jsval \<Rightarrow> string" where
  "cell_text rt v = (if nullish v then [] else to_string rt v)"

text \<open>Values other than arrays that can answer a \<open>length\<close>: strings and objects.\<close>

definition counts_by_length :: "jsval \<Rightarrow> bool" where
  "counts_by_length v = (case v of JStr s \<Rightarrow> True | JObj kvs \<Rightarrow> True | _ \<Rightarrow> False)"

section \<open>Concrete inputs\<close>

text \<open>
  A runtime, a clock and a service for the concrete runs below. None of those runs
  converts a number to text or a non-empty text to a number, and their CSV cells hold no
  numerals.
\<close>

definition sample_runtime :: js_runtime where
  "sample_runtime =
     \<lparr>num_to_string = (\<lambda>r. ''0''), string_to_number = (\<lambda>s. JNaN), parseFloat = (\<lambda>v. JNaN)\<rparr>"

definition sample_clock :: clock where
  "sample_clock =
     \<lparr>now_ms = 1700000000000, locale_date = ''11/14/2023'',
      iso_string = ''2023-11-14T22:13:20.000Z''\<rparr>"

definition sample_fetch :: "string \<Rightarrow> unit \<Rightarrow> fetch_outcome" where
  "sample_fetch endpoint body =
     (if endpoint = ''http://localhost:8000/extract''
      then FetchResponse True
             (Some (JObj [(''port'', JStr ''Haldia''),
                          (''events'', JArr [JObj [(''event'', JStr ''Loading''),
                                                   (''start'', JStr ''08:00'')]])]))
      else if endpoint = ''http://down/extract'' then FetchResponse False None
      else FetchRejected)"

text \<open>The scenario of the specification, and a file without a vessel column.\<close>

definition scenario_csv :: string where
  "scenario_csv = ''Vessel,Event,Start Time,End Time'' @ [CHR 0x0A] @ ''MV TEST,Loading,08:00,10:00''"


section \<open>Auxiliary facts\<close>

lemma truthy_js_and: "truthy (js_and a b) = (truthy a \<and> truthy b)"
  by (simp add: js_and_def)

lemma js_or_not_undef [simp]: "b \<noteq> JUndefined \<Longrightarrow> js_or a b \<noteq> JUndefined"
  by (cases a) (auto simp: js_or_def)

lemma falsy_no_props: "\<not> truthy v \<Longrightarrow> k \<noteq> ''length'' \<Longrightarrow> get_prop v k = JUndefined"
  by (cases v) (auto simp: index_keys_def)

lemma arr_length: "get_prop (JArr xs) ''length'' = JNum (real (length xs))"
  by simp

lemma get_prop_update:
  "get_prop (JObj (AList.update k v kvs)) k' = (if k' = k then v else get_prop (JObj kvs) k')"
  by (simp add: update_conv')

text \<open>The enumeration of an object: its keys, each once, with the values of the object.\<close>

lemma set_object_keys: "set (object_keys kvs) = fst ` set kvs"
  using clearjunk_keys_set [of kvs] by (auto simp: object_keys_def Let_def)

lemma distinct_object_keys: "distinct (object_keys kvs)"
  using distinct_clearjunk [of kvs]
  by (auto simp: object_keys_def Let_def)

lemma map_fst_own_props: "map fst (own_props (JObj kvs)) = object_keys kvs"
  by (simp add: comp_def)

lemma map_of_own_props: "map_of (own_props (JObj kvs)) k = map_of kvs k"
proof (cases "map_of kvs k")
  case None
  then have "k \<notin> set (object_keys kvs)" by (simp add: set_object_keys map_of_eq_None_iff)
  with None show ?thesis by (simp add: map_of_map_restrict restrict_map_def)
next
  case (Some v)
  then have "k \<in> set (object_keys kvs)"
    by (metis set_object_keys map_of_eq_None_iff option.distinct(1))
  with Some show ?thesis by (simp add: map_of_map_restrict restrict_map_def)
qed

lemma get_prop_own_props: "get_prop (JObj (own_props (JObj kvs))) k = get_prop (JObj kvs) k"
  by (simp only: get_prop.simps map_of_own_props)

text \<open>An object without array indices among its keys is enumerated in the order of its list.\<close>

lemma object_keys_plain:
  assumes "distinct (map fst kvs)" and "\<forall>k \<in> fst ` set kvs. \<not> is_array_index k"
  shows "object_keys kvs = map fst kvs"
proof -
  have "filter is_array_index (map fst kvs) = []" using assms(2) by (auto simp: filter_empty_conv)
  moreover have "filter (\<lambda>k. \<not> is_array_index k) (map fst kvs) = map fst kvs"
    using assms(2) by (auto simp: filter_id_conv)
  ultimately show ?thesis using assms(1) by (simp add: object_keys_def Let_def)
qed

text \<open>A list whose keys are in enumeration order is enumerated as it stands.\<close>

lemma object_keys_idem:
  assumes "map fst L = object_keys kvs"
  shows "object_keys L = object_keys kvs"
proof -
  let ?ks = "map fst (AList.clearjunk kvs)"
  let ?A = "sort_key index_value (filter is_array_index ?ks)"
  let ?B = "filter (\<lambda>k. \<not> is_array_index k) ?ks"
  have ok: "object_keys kvs = ?A @ ?B" by (simp add: object_keys_def Let_def)
  have d: "distinct (map fst L)" using assms distinct_object_keys by simp
  then have c: "AList.clearjunk L = L" by simp
  have fa: "filter is_array_index (?A @ ?B) = ?A"
    by (auto simp: filter_empty_conv filter_id_conv)
  have fb: "filter (\<lambda>k. \<not> is_array_index k) (?A @ ?B) = ?B"
    by (auto simp: filter_empty_conv filter_id_conv)
  have "sort_key index_value ?A = ?A"
    by (rule sort_key_id_if_sorted) simp
  then show ?thesis
    using assms by (simp add: object_keys_def [of L] Let_def c ok fa fb)
qed

lemma own_props_update_keys:
  assumes "k \<in> fst ` set kvs"
  shows "map fst (AList.update k v (own_props (JObj kvs))) = object_keys kvs"
    and "object_keys (AList.update k v (own_props (JObj kvs))) = object_keys kvs"
proof -
  have "k \<in> set (object_keys kvs)" using assms by (simp add: set_object_keys)
  then have "k \<in> set (map fst (own_props (JObj kvs)))"
    by (simp only: map_fst_own_props)
  then have "map fst (AList.update k v (own_props (JObj kvs))) = map fst (own_props (JObj kvs))"
    by (simp add: update_keys del: own_props.simps)
  then show 1: "map fst (AList.update k v (own_props (JObj kvs))) = object_keys kvs"
    by (simp only: map_fst_own_props)
  then show "object_keys (AList.update k v (own_props (JObj kvs))) = object_keys kvs"
    by (rule object_keys_idem)
qed

lemma exposes_update: "exposes (JObj (AList.update k v kvs)) k' = (k' = k \<or> exposes (JObj kvs) k')"
  by (simp add: exposes_def update_conv')

text \<open>The filter of the sanitizer keeps exactly the events with a truthy name.\<close>

lemma keep_event_name: "keep_event e = truthy (get_prop e ''name'')"
proof (cases "truthy e")
  case True
  then show ?thesis by (simp add: keep_event_def truthy_js_and)
next
  case False
  then have "get_prop e ''name'' = JUndefined" by (rule falsy_no_props) simp
  with False show ?thesis by (simp add: keep_event_def truthy_js_and)
qed

lemma validate_exact:
  "truthy (validateExtractedData rt result) =
     (truthy result \<and> truthy (get_prop result ''vessel'') \<and> truthy (get_prop result ''events'') \<and>
      truthy (js_gt_num rt (get_prop (get_prop result ''events'') ''length'') 0))"
  by (simp add: validateExtractedData_def truthy_js_and)

lemma validate_plain:
  assumes "\<not> counts_by_length (get_prop result ''events'')"
  shows "truthy (validateExtractedData rt result) = spec_IsValid result"
proof (cases "truthy result")
  case False
  then show ?thesis
    by (simp add: validate_exact spec_IsValid_def falsy_no_props)
next
  case True
  then have nn: "\<not> nullish result" by (cases result) auto
  show ?thesis
    using assms True nn
    by (cases "get_prop result ''events''")
       (auto simp: validate_exact spec_IsValid_def counts_by_length_def js_gt_num_def index_keys_def)
qed

lemma sanitize_obj:
  assumes "get_prop (JObj kvs) ''events'' = JArr evs"
  shows "sanitizeDataBeforeSave (JObj kvs) =
           Inr (JObj (AList.update ''events'' (JArr (filter keep_event evs)) (own_props (JObj kvs))))"
  using assms
  by (simp add: sanitizeDataBeforeSave_def js_or_def del: get_prop.simps own_props.simps)

text \<open>The scan for the vessel row is a search in the first five rows.\<close>

lemma find_vessel_row_find:
  "find_vessel_row i csvData =
     List.find (\<lambda>row. truthy (vessel_of row)) (drop i (take 5 csvData))"
proof (induction i csvData rule: find_vessel_row.induct)
  case (1 i csvData)
  show ?case
  proof (cases "i < min 5 (length csvData)")
    case False
    then have "drop i (take 5 csvData) = []" by auto
    with False show ?thesis by (subst find_vessel_row.simps) auto
  next
    case True
    then have l: "i < length (take 5 csvData)" by simp
    then have "drop i (take 5 csvData) = take 5 csvData ! i # drop (Suc i) (take 5 csvData)"
      by (rule Cons_nth_drop_Suc [symmetric])
    moreover have "take 5 csvData ! i = csvData ! i" using True by simp
    ultimately have d: "drop i (take 5 csvData) = csvData ! i # drop (i + 1) (take 5 csvData)"
      by simp
    show ?thesis
    proof (cases "truthy (vessel_of (csvData ! i))")
      case t: True
      with True d show ?thesis by (subst find_vessel_row.simps) auto
    next
      case f: False
      with True d "1.IH" show ?thesis by (subst find_vessel_row.simps) auto
    qed
  qed
qed



lemma extract_vessel:
  assumes "csvData \<noteq> []"
  shows "extractVesselDataFromCsv rt csvData =
           vessel_record rt
             (case List.find (\<lambda>row. truthy (vessel_of row)) (take 5 csvData) of
                Some row \<Rightarrow> row | None \<Rightarrow> csvData ! 0) csvData"
  using assms
  by (simp add: extractVesselDataFromCsv_def find_vessel_row_find Let_def split: option.splits)


lemma vessel_record_events:
  "get_prop (vessel_record rt row csvData) ''events'' = JArr (csv_events csvData)"
  by (simp add: vessel_record_def Let_def)


lemma extract_is_object:
  assumes "csvData \<noteq> []"
  shows "\<exists>kvs. extractVesselDataFromCsv rt csvData = JObj kvs"
  by (simp only: extract_vessel [OF assms] vessel_record_def Let_def) blast

lemma processCsvFile_rows:
  assumes "csv_lines text = header # first # rest"
  shows "processCsvFile rt text =
           Inr (extractVesselDataFromCsv rt
                  (map (csv_row (map trim (split_on CHR '','' header))) (first # rest)))"
proof -
  let ?data = "map (csv_row (map trim (split_on CHR '','' header))) (first # rest)"
  have "?data \<noteq> []" by simp
  then obtain kvs where "extractVesselDataFromCsv rt ?data = JObj kvs"
    using extract_is_object by blast
  then show ?thesis using assms by (simp add: processCsvFile_def Let_def)
qed

lemma csv_event_missing: "isMissingTime (csv_event row) = Inr (JBool True)"
  by (simp add: isMissingTime_def csv_event_def Let_def js_or_def js_not_def)

lemma csv_event_keys:
  "exposes (csv_event row) ''name'' \<and> exposes (csv_event row) ''start'' \<and> exposes (csv_event row) ''end''"
  by (simp add: csv_event_def exposes_def)

lemma handleEventUpdate_obj:
  assumes "get_prop (JObj kvs) ''events'' = JArr evs" and "i < length evs" and "\<not> nullish upd"
  shows "handleEventUpdate (JObj kvs) i upd =
           Inr (JObj (AList.update ''events''
                  (JArr (evs[i := JObj (AList.update ''end_time'' (get_prop upd ''end_time'')
                          (AList.update ''start_time'' (get_prop upd ''start_time'')
                          (AList.update ''end'' (get_prop upd ''end_time'')
                          (AList.update ''start'' (get_prop upd ''start_time'')
                          (AList.update ''name'' (get_prop upd ''name'')
                             (own_props (evs ! i)))))))])) (own_props (JObj kvs))))"
  using assms
  by (simp add: handleEventUpdate_def truthy_js_and arr_set_def arr_at_def Let_def
        del: get_prop.simps own_props.simps)

text \<open>The two serializers on a general list.\<close>

lemma map_rows_all: "\<forall>x \<in> set xs. f x = Inr (g x) \<Longrightarrow> map_rows f xs = Inr (map g xs)"
  by (induction xs) auto

lemma first_element: "get_prop (JArr (x # xs)) ''0'' = x"
proof -
  have u: "[0..<Suc (length xs)] = 0 # [Suc 0..<Suc (length xs)]" by (rule upt_conv_Cons) simp
  have s0: "show_nat 0 = ''0''" by simp
  have "own_props (JArr (x # xs)) = (''0'', x) # zip (map show_nat [Suc 0..<Suc (length xs)]) xs"
    by (simp only: own_props.simps index_keys_def length_Cons u list.map s0 zip_Cons_Cons)
  then show ?thesis by (simp del: own_props.simps)
qed

lemma doubled_count:
  "length (filter (\<lambda>c. c = CHR 0x22)
     (concat (map (\<lambda>c. if c = CHR 0x22 then [CHR 0x22, CHR 0x22] else [c]) s))) =
   2 * length (filter (\<lambda>c. c = CHR 0x22) s)"
  by (induction s) auto

lemma doubled_rest:
  "filter (\<lambda>c. c \<noteq> CHR 0x22)
     (concat (map (\<lambda>c. if c = CHR 0x22 then [CHR 0x22, CHR 0x22] else [c]) s)) =
   filter (\<lambda>c. c \<noteq> CHR 0x22) s"
  by (induction s) auto

lemma doubled_plain:
  "CHR 0x22 \<notin> set s \<Longrightarrow> concat (map (\<lambda>c. if c = CHR 0x22 then [CHR 0x22, CHR 0x22] else [c]) s) = s"
  by (induction s) auto

lemma quoting_rules_agree:
  "quoted_when_needed s = always_quoted s \<longleftrightarrow> CHR '','' \<in> set s \<and> CHR 0x22 \<notin> set s"
proof (cases "CHR 0x22 \<in> set s")
  case False
  then show ?thesis
    by (auto simp: quoted_when_needed_def always_quoted_def doubled_plain)
next
  case True
  let ?d = "concat (map (\<lambda>c. if c = CHR 0x22 then [CHR 0x22, CHR 0x22] else [c]) s)"
  have "length (filter (\<lambda>c. c = CHR 0x22) s) > 0"
    using True by (auto simp: filter_empty_conv)
  then have "length (filter (\<lambda>c. c = CHR 0x22) ?d) \<noteq> length (filter (\<lambda>c. c = CHR 0x22) s)"
    by (simp add: doubled_count)
  then have "?d \<noteq> s" by auto
  with True show ?thesis by (simp add: quoted_when_needed_def always_quoted_def)
qed

lemma cell_csv_value:
  "cell_text rt (csv_value v) = (case v of JStr s \<Rightarrow> quoted_when_needed s | w \<Rightarrow> cell_text rt w)"
  by (cases v) (simp_all add: csv_value_def cell_text_def quoted_when_needed_def escape_quotes_def)

lemma convert_row_text:
  "\<not> nullish r \<Longrightarrow>
   convert_row rt headers r =
     Inr (join_with '','' (map (\<lambda>header. case get_prop r header of
                                            JStr s \<Rightarrow> quoted_when_needed s
                                          | v \<Rightarrow> cell_text rt v) headers))"
proof -
  assume n: "\<not> nullish r"
  have p: "(if nullish (csv_value v) then [] else to_string rt (csv_value v)) =
           (case v of JStr s \<Rightarrow> quoted_when_needed s | w \<Rightarrow> cell_text rt w)" for v
    using cell_csv_value [of rt v] by (simp add: cell_text_def)
  show ?thesis using n by (simp add: convert_row_def js_join_def comp_def p)
qed

lemma convertToCSV_rows:
  assumes "list_all (\<lambda>r. \<not> nullish r) (row # rows)"
  shows "convertToCSV rt (JArr (row # rows)) =
        Inr (join_with [CHR 0x0A]
               (join_with '','' (map fst (own_props row)) #
                map (\<lambda>r. join_with '',''
                            (map (\<lambda>header. case get_prop r header of
                                               JStr s \<Rightarrow> quoted_when_needed s
                                             | v \<Rightarrow> cell_text rt v)
                                 (map fst (own_props row))))
                    (row # rows)))"
proof -
  let ?headers = "map fst (own_props row)"
  let ?line = "\<lambda>r. join_with '','' (map (\<lambda>header. case get_prop r header of
                                               JStr s \<Rightarrow> quoted_when_needed s
                                             | v \<Rightarrow> cell_text rt v) ?headers)"
  have "\<forall>r \<in> set (row # rows). convert_row rt ?headers r = Inr (?line r)"
    using assms convert_row_text by (simp add: list_all_iff)
  then have m: "map_rows (convert_row rt ?headers) (row # rows) = Inr (map ?line (row # rows))"
    by (rule map_rows_all)
  have n: "\<not> nullish row" using assms by simp
  have l: "get_prop (JArr (row # rows)) ''length'' \<noteq> JNum 0" by simp
  show ?thesis
    unfolding convertToCSV_def
    by (simp only: first_element n l m Let_def truthy.simps spread_iterable.simps sum.case)
       simp
qed

lemma exportToCSV_events:
  assumes "get_prop (JObj kvs) ''events'' = JArr events" and "list_all (\<lambda>e. \<not> nullish e) events"
  shows "exportToCSV rt clk (JObj kvs) =
        Inr (Some (''laytime-events-'' @ iso_date clk @ ''.csv'',
                   join_with [CHR 0x0A]
                     (''Event Name,Start Time,End Time'' #
                      map (\<lambda>e. always_quoted (to_string rt (get_prop e ''name'')) @ '','' @
                                cell_text rt (get_prop e ''start'') @ '','' @
                                cell_text rt (get_prop e ''end''))
                          events)))"
proof -
  let ?line = "\<lambda>e. always_quoted (to_string rt (get_prop e ''name'')) @ '','' @
                                cell_text rt (get_prop e ''start'') @ '','' @
                                cell_text rt (get_prop e ''end'')"
  have "\<forall>e \<in> set events. export_row rt e = Inr (?line e)"
    using assms(2) by (simp add: list_all_iff export_row_def js_join_def always_quoted_def cell_text_def)
  then have m: "map_rows (export_row rt) events = Inr (map ?line events)"
    by (rule map_rows_all)
  show ?thesis
    using assms(1) by (simp add: exportToCSV_def m del: get_prop.simps)
qed

lemma hd_join_with: "h \<noteq> [] \<Longrightarrow> hd (join_with sep (h # rows)) = hd h"
  by (cases rows) simp_all

lemma keyed_not_nullish: "map fst (own_props e) = [''name'', ''start'', ''end''] \<Longrightarrow> \<not> nullish e"
  by (cases e) auto

lemma serializers_differ_on_events:
  assumes "list_all (\<lambda>e. map fst (own_props e) = [''name'', ''start'', ''end'']) events"
  shows "map_sum id Some (convertToCSV rt (JArr events)) \<noteq>
         map_sum id (map_option snd) (exportToCSV rt clk (JObj [(''events'', JArr events)]))"
proof (cases events)
  case Nil
  then show ?thesis by (simp add: convertToCSV_def exportToCSV_def)
next
  case (Cons row rows)
  have nn: "list_all (\<lambda>e. \<not> nullish e) (row # rows)"
    using assms Cons keyed_not_nullish by (auto simp: list_all_iff)
  have k: "map fst (own_props row) = [''name'', ''start'', ''end'']" using assms Cons by simp
  have g: "get_prop (JObj [(''events'', JArr (row # rows))]) ''events'' = JArr (row # rows)" by simp
  obtain x where x: "convertToCSV rt (JArr (row # rows)) = Inr x" and hx: "hd x = CHR ''n''"
    using convertToCSV_rows [OF nn, of rt] by (simp only: k hd_join_with) simp
  obtain f y where y: "exportToCSV rt clk (JObj [(''events'', JArr (row # rows))]) = Inr (Some (f, y))"
    and hy: "hd y = CHR ''E''"
    using exportToCSV_events [OF g nn, of rt clk] by (simp only: hd_join_with) simp
  from hx hy have "x \<noteq> y" by auto
  then show ?thesis using Cons x y by simp
qed

lemma length_json_elems [simp]: "length (json_elems xs) = length xs"
  by (induction xs) auto

text \<open>The stored form of a new record, read back field by field.\<close>

lemma saved_record:
  assumes "get_prop s ''vessel'' = JStr v" and "get_prop s ''port'' = JStr p"
    and "get_prop s ''events'' = JArr fs" and "s \<noteq> JUndefined"
  shows "\<exists>kvs. json_roundtrip (new_item rt clk s) = JObj kvs \<and>
           get_prop (JObj kvs) ''vessel'' = JStr v \<and>
           get_prop (JObj kvs) ''port'' = JStr p \<and>
           get_prop (JObj kvs) ''totalEvents'' = JNum (real (length fs)) \<and>
           get_prop (JObj kvs) ''events'' = JArr (json_elems fs) \<and>
           get_prop (JObj kvs) ''extractedData'' = json_roundtrip s"
  using assms by (simp add: new_item_def js_or_def [of "JArr fs"])

lemma scenario_lines:
  "csv_lines scenario_csv = [''Vessel,Event,Start Time,End Time'', ''MV TEST,Loading,08:00,10:00'']"
  by (simp add: csv_lines_def scenario_csv_def trim_def is_space_def)

lemma scenario_rows:
  "map (csv_row (map trim (split_on CHR '','' ''Vessel,Event,Start Time,End Time'')))
     [''MV TEST,Loading,08:00,10:00''] =
   [[(''Vessel'', JStr ''MV TEST''), (''Event'', JStr ''Loading''),
     (''Start Time'', JStr ''08:00''), (''End Time'', JStr ''10:00'')]]"
  by (simp add: csv_row_def trim_def is_space_def assign_cell_def str_at_def js_or_def upt_rec)

lemma scenario_events:
  "csv_events [[(''Vessel'', JStr ''MV TEST''), (''Event'', JStr ''Loading''),
                (''Start Time'', JStr ''08:00''), (''End Time'', JStr ''10:00'')]] =
   [JObj [(''name'', JStr ''Loading''), (''start'', JStr ''08:00''), (''end'', JStr ''10:00'')]]"
  by (simp add: csv_events_def csv_event_def event_name_of_def js_or_def)



section \<open>Save followed by load\<close>

text \<open>
  Claim C1, as amended. Let the result be an object whose vessel and port are strings and
  whose events are a sequence, let it pass the gate, and let at least one of its events
  have a truthy name; let the store be empty or hold a sequence. Then the save succeeds,
  and the first record of the following load has the vessel and the port of the result
  and, as totalEvents, the number of its events with a truthy name (the events that the
  sanitizer keeps). The record holds, as extractedData, the stored form of the sanitized
  result.
\<close>

theorem save_then_load_first_record:
  assumes obj: "get_prop (JObj kvs) ''events'' = JArr evs"
    and vessel: "get_prop (JObj kvs) ''vessel'' = JStr v"
    and port: "get_prop (JObj kvs) ''port'' = JStr p"
    and valid: "truthy (validateExtractedData rt (JObj kvs))"
    and named: "filter (\<lambda>e. truthy (get_prop e ''name'')) evs \<noteq> []"
    and store: "st = Absent \<or> st = Json (JArr items)"
  shows "\<exists>st' saved rest sanitized.
           saveToLaytime rt clk (JObj kvs) st =
             (Saved ''Data saved successfully! You can view it in the Saved Events section.'', st') \<and>
           loadSavedEvents rt st' = saved # rest \<and>
           get_prop saved ''vessel'' = JStr v \<and>
           get_prop saved ''port'' = JStr p \<and>
           get_prop saved ''totalEvents'' =
             JNum (real (length (filter (\<lambda>e. truthy (get_prop e ''name'')) evs))) \<and>
           sanitizeDataBeforeSave (JObj kvs) = Inr sanitized \<and>
           get_prop saved ''extractedData'' = json_roundtrip sanitized"
proof -
  let ?fs = "filter keep_event evs"
  let ?s = "JObj (AList.update ''events'' (JArr ?fs) (own_props (JObj kvs)))"
  let ?old = "case st of Json (JArr xs) \<Rightarrow> xs | _ \<Rightarrow> []"
  have k: "keep_event = (\<lambda>e. truthy (get_prop e ''name''))"
    by (rule ext) (rule keep_event_name)
  have fs: "?fs \<noteq> []" using named by (simp add: k)
  have san: "sanitizeDataBeforeSave (JObj kvs) = Inr ?s" using obj by (rule sanitize_obj)
  have sv: "get_prop ?s ''vessel'' = JStr v"
    using vessel by (simp add: get_prop_update get_prop_own_props del: get_prop.simps own_props.simps)
  have sp: "get_prop ?s ''port'' = JStr p"
    using port by (simp add: get_prop_update get_prop_own_props del: get_prop.simps own_props.simps)
  have se: "get_prop ?s ''events'' = JArr ?fs"
    by (simp add: get_prop_update del: get_prop.simps own_props.simps)
  from saved_record [OF sv sp se, of rt clk] obtain rkvs where
    r: "json_roundtrip (new_item rt clk ?s) = JObj rkvs"
    and rv: "get_prop (JObj rkvs) ''vessel'' = JStr v"
    and rp: "get_prop (JObj rkvs) ''port'' = JStr p"
    and rtot: "get_prop (JObj rkvs) ''totalEvents'' = JNum (real (length ?fs))"
    and re: "get_prop (JObj rkvs) ''events'' = JArr (json_elems ?fs)"
    and rx: "get_prop (JObj rkvs) ''extractedData'' = json_roundtrip ?s"
    by auto
  have ni: "new_item rt clk ?s \<noteq> JUndefined" by (simp add: new_item_def)
  have body: "save_body rt clk (JObj kvs) st = Inr (Json (JArr (JObj rkvs # json_elems ?old)))"
    using store r ni by (auto simp: save_body_def san)
  have save: "saveToLaytime rt clk (JObj kvs) st =
      (Saved ''Data saved successfully! You can view it in the Saved Events section.'',
       Json (JArr (JObj rkvs # json_elems ?old)))"
    using valid by (simp add: saveToLaytime_def body)
  have v: "v \<noteq> []" using valid vessel by (simp add: validate_exact del: get_prop.simps)
  have rvalid: "truthy (validateExtractedData rt (JObj rkvs))"
    using rv re v fs by (simp add: validate_exact js_gt_num_def arr_length del: get_prop.simps)
  have load: "loadSavedEvents rt (Json (JArr (JObj rkvs # json_elems ?old))) =
      JObj rkvs # filter (\<lambda>calc. truthy (validateExtractedData rt calc)) (json_elems ?old)"
    using rvalid by (simp add: loadSavedEvents_def)
  show ?thesis
    using save load rv rp rtot rx san by (auto simp: k)
qed

text \<open>
  A run of it: two events, one named by the key \<open>name\<close> and one by the legacy key
  \<open>event\<close>, saved into a store that holds one older entry.
\<close>

theorem save_then_load_first_record_witness:
  "truthy (validateExtractedData sample_runtime
     (JObj [(''vessel'', JStr ''MV TEST''), (''port'', JStr ''Haldia''),
            (''events'', JArr [JObj [(''name'', JStr ''Loading'')], JObj [(''event'', JStr ''Sailing'')]])])) \<and>
   (\<exists>st' saved rest.
      saveToLaytime sample_runtime sample_clock
        (JObj [(''vessel'', JStr ''MV TEST''), (''port'', JStr ''Haldia''),
               (''events'', JArr [JObj [(''name'', JStr ''Loading'')], JObj [(''event'', JStr ''Sailing'')]])])
        (Json (JArr [JObj [(''id'', JNum 1)]])) =
        (Saved ''Data saved successfully! You can view it in the Saved Events section.'', st') \<and>
      loadSavedEvents sample_runtime st' = saved # rest \<and>
      get_prop saved ''vessel'' = JStr ''MV TEST'' \<and>
      get_prop saved ''port'' = JStr ''Haldia'' \<and>
      get_prop saved ''totalEvents'' = JNum 1)"
proof -
  let ?evs = "[JObj [(''name'', JStr ''Loading'')], JObj [(''event'', JStr ''Sailing'')]]"
  let ?kvs = "[(''vessel'', JStr ''MV TEST''), (''port'', JStr ''Haldia''), (''events'', JArr ?evs)]"
  let ?st = "Json (JArr [JObj [(''id'', JNum 1)]])"
  have obj: "get_prop (JObj ?kvs) ''events'' = JArr ?evs" by simp
  have vessel: "get_prop (JObj ?kvs) ''vessel'' = JStr ''MV TEST''" by simp
  have port: "get_prop (JObj ?kvs) ''port'' = JStr ''Haldia''" by simp
  have valid: "truthy (validateExtractedData sample_runtime (JObj ?kvs))"
    by (simp add: validate_exact js_gt_num_def)
  have named: "filter (\<lambda>e. truthy (get_prop e ''name'')) ?evs \<noteq> []" by simp
  have store: "?st = Absent \<or> ?st = Json (JArr [JObj [(''id'', JNum 1)]])" by simp
  from save_then_load_first_record [OF obj vessel port valid named store, of sample_clock]
  obtain st' saved rest where
    "saveToLaytime sample_runtime sample_clock (JObj ?kvs) ?st =
       (Saved ''Data saved successfully! You can view it in the Saved Events section.'', st')"
    "loadSavedEvents sample_runtime st' = saved # rest"
    "get_prop saved ''vessel'' = JStr ''MV TEST''"
    "get_prop saved ''port'' = JStr ''Haldia''"
    "get_prop saved ''totalEvents'' = JNum (real (length (filter (\<lambda>e. truthy (get_prop e ''name'')) ?evs)))"
    by blast
  then show ?thesis using valid by (intro conjI exI [of _ st'] exI [of _ saved] exI [of _ rest]) simp_all
qed

text \<open>
  The claim as stated fails on a valid result whose only event is named by the legacy
  key \<open>event\<close>: the gate accepts it, the save succeeds, and the following load returns
  no record at all.
\<close>

theorem save_then_load_counterexample:
  "truthy (validateExtractedData sample_runtime
     (JObj [(''vessel'', JStr ''MV TEST''), (''port'', JStr ''Haldia''),
            (''events'', JArr [JObj [(''event'', JStr ''Loading''), (''start'', JStr ''08:00''),
                                     (''end'', JStr ''10:00'')]])])) \<and>
   fst (saveToLaytime sample_runtime sample_clock
     (JObj [(''vessel'', JStr ''MV TEST''), (''port'', JStr ''Haldia''),
            (''events'', JArr [JObj [(''event'', JStr ''Loading''), (''start'', JStr ''08:00''),
                                     (''end'', JStr ''10:00'')]])]) Absent) =
     Saved ''Data saved successfully! You can view it in the Saved Events section.'' \<and>
   loadSavedEvents sample_runtime (snd (saveToLaytime sample_runtime sample_clock
     (JObj [(''vessel'', JStr ''MV TEST''), (''port'', JStr ''Haldia''),
            (''events'', JArr [JObj [(''event'', JStr ''Loading''), (''start'', JStr ''08:00''),
                                     (''end'', JStr ''10:00'')]])]) Absent)) = []"
  by (simp add: validate_exact js_gt_num_def saveToLaytime_def save_body_def sanitizeDataBeforeSave_def
      keep_event_def js_and_def js_or_def new_item_def loadSavedEvents_def
      object_keys_def is_array_index_def is_digit_def)

section \<open>Keys of the events that reach the table\<close>

text \<open>
  Claim C2, as amended. Every event of the CSV path exposes the keys name, start and end.
  The document path hands the events of the payload over as they are. An event replaced
  by an edit exposes name, start, end, start_time and end_time, with start equal to
  start_time and end equal to end_time, and the edit leaves the other events alone.
\<close>

theorem event_keys_by_path:
  "(\<forall>e \<in> set (csv_events csvData).
      exposes e ''name'' \<and> exposes e ''start'' \<and> exposes e ''end'') \<and>
   (csvData \<noteq> [] \<longrightarrow>
      get_prop (extractVesselDataFromCsv rt csvData) ''events'' = JArr (csv_events csvData)) \<and>
   (url \<noteq> [] \<and> fetch (strip_trailing_slash url @ ''/extract'') formData = FetchResponse True (Some data)
      \<and> get_prop data ''events'' = JArr devs \<longrightarrow>
      (\<exists>res. extractEvents (Some url) fetch formData = Inr res \<and> get_prop res ''events'' = JArr devs)) \<and>
   (get_prop (JObj kvs) ''events'' = JArr evs \<and> i < length evs \<and> \<not> nullish upd \<longrightarrow>
      (\<exists>kvs' evs'. handleEventUpdate (JObj kvs) i upd = Inr (JObj kvs') \<and>
         get_prop (JObj kvs') ''events'' = JArr evs' \<and> length evs' = length evs \<and>
         list_all (exposes (evs' ! i)) [''name'', ''start'', ''end'', ''start_time'', ''end_time''] \<and>
         get_prop (evs' ! i) ''name'' = get_prop upd ''name'' \<and>
         get_prop (evs' ! i) ''start'' = get_prop upd ''start_time'' \<and>
         get_prop (evs' ! i) ''start_time'' = get_prop upd ''start_time'' \<and>
         get_prop (evs' ! i) ''end'' = get_prop upd ''end_time'' \<and>
         get_prop (evs' ! i) ''end_time'' = get_prop upd ''end_time'' \<and>
         (\<forall>j < length evs. j \<noteq> i \<longrightarrow> evs' ! j = evs ! j)))"
proof (intro conjI impI ballI)
  fix e assume "e \<in> set (csv_events csvData)"
  then obtain row where "e = csv_event row" by (auto simp: csv_events_def)
  then show "exposes e ''name''" "exposes e ''start''" "exposes e ''end''"
    using csv_event_keys [of row] by simp_all
next
  assume "csvData \<noteq> []"
  then show "get_prop (extractVesselDataFromCsv rt csvData) ''events'' = JArr (csv_events csvData)"
    by (simp add: extract_vessel vessel_record_events)
next
  assume a: "url \<noteq> [] \<and> fetch (strip_trailing_slash url @ ''/extract'') formData = FetchResponse True (Some data)
      \<and> get_prop data ''events'' = JArr devs"
  then have "\<not> nullish data" by (cases data) auto
  with a show "\<exists>res. extractEvents (Some url) fetch formData = Inr res \<and> get_prop res ''events'' = JArr devs"
    by (simp add: extractEvents_def del: get_prop.simps) simp
next
  assume a: "get_prop (JObj kvs) ''events'' = JArr evs \<and> i < length evs \<and> \<not> nullish upd"
  let ?ev = "JObj (AList.update ''end_time'' (get_prop upd ''end_time'')
                          (AList.update ''start_time'' (get_prop upd ''start_time'')
                          (AList.update ''end'' (get_prop upd ''end_time'')
                          (AList.update ''start'' (get_prop upd ''start_time'')
                          (AList.update ''name'' (get_prop upd ''name'')
                             (own_props (evs ! i)))))))"
  let ?kvs' = "AList.update ''events'' (JArr (evs[i := ?ev])) (own_props (JObj kvs))"
  have h: "handleEventUpdate (JObj kvs) i upd = Inr (JObj ?kvs')"
    using a handleEventUpdate_obj by blast
  have n: "(evs[i := ?ev]) ! i = ?ev" using a by simp
  show "\<exists>kvs' evs'. handleEventUpdate (JObj kvs) i upd = Inr (JObj kvs') \<and>
         get_prop (JObj kvs') ''events'' = JArr evs' \<and> length evs' = length evs \<and>
         list_all (exposes (evs' ! i)) [''name'', ''start'', ''end'', ''start_time'', ''end_time''] \<and>
         get_prop (evs' ! i) ''name'' = get_prop upd ''name'' \<and>
         get_prop (evs' ! i) ''start'' = get_prop upd ''start_time'' \<and>
         get_prop (evs' ! i) ''start_time'' = get_prop upd ''start_time'' \<and>
         get_prop (evs' ! i) ''end'' = get_prop upd ''end_time'' \<and>
         get_prop (evs' ! i) ''end_time'' = get_prop upd ''end_time'' \<and>
         (\<forall>j < length evs. j \<noteq> i \<longrightarrow> evs' ! j = evs ! j)"
    apply (rule exI [of _ ?kvs'])
    apply (rule exI [of _ "evs[i := ?ev]"])
    apply (simp only: h n)
    apply (simp add: get_prop_update exposes_update del: get_prop.simps own_props.simps)
    done
qed

text \<open>
  A run of it: the scenario row, the sample service, and an edit of the scenario's event
  to the times 09:00 and 11:00.
\<close>

theorem event_keys_by_path_witness:
  "get_prop (extractVesselDataFromCsv sample_runtime
      [[(''Vessel'', JStr ''MV TEST''), (''Event'', JStr ''Loading''),
        (''Start Time'', JStr ''08:00''), (''End Time'', JStr ''10:00'')]]) ''events'' =
     JArr [JObj [(''name'', JStr ''Loading''), (''start'', JStr ''08:00''), (''end'', JStr ''10:00'')]] \<and>
   exposes (JObj [(''name'', JStr ''Loading''), (''start'', JStr ''08:00''), (''end'', JStr ''10:00'')]) ''start'' \<and>
   (\<exists>res. extractEvents (Some ''http://localhost:8000/'') sample_fetch () = Inr res \<and>
      get_prop res ''events'' = JArr [JObj [(''event'', JStr ''Loading''), (''start'', JStr ''08:00'')]]) \<and>
   (\<exists>kvs' evs'.
      handleEventUpdate
        (JObj [(''vessel'', JStr ''MV TEST''),
               (''events'', JArr [JObj [(''name'', JStr ''Loading''), (''start'', JStr ''08:00''),
                                        (''end'', JStr ''10:00'')]])])
        0 (JObj [(''name'', JStr ''Loading''), (''start_time'', JStr ''09:00''), (''end_time'', JStr ''11:00'')])
        = Inr (JObj kvs') \<and>
      get_prop (JObj kvs') ''events'' = JArr evs' \<and>
      exposes (evs' ! 0) ''start_time'' \<and> exposes (evs' ! 0) ''end_time'' \<and>
      get_prop (evs' ! 0) ''start'' = JStr ''09:00'' \<and> get_prop (evs' ! 0) ''end'' = JStr ''11:00'')"
proof -
  let ?row = "[(''Vessel'', JStr ''MV TEST''), (''Event'', JStr ''Loading''),
        (''Start Time'', JStr ''08:00''), (''End Time'', JStr ''10:00'')]"
  let ?ev = "JObj [(''name'', JStr ''Loading''), (''start'', JStr ''08:00''), (''end'', JStr ''10:00'')]"
  let ?kvs = "[(''vessel'', JStr ''MV TEST''), (''events'', JArr [?ev])]"
  let ?upd = "JObj [(''name'', JStr ''Loading''), (''start_time'', JStr ''09:00''), (''end_time'', JStr ''11:00'')]"
  let ?payload = "JObj [(''port'', JStr ''Haldia''),
                        (''events'', JArr [JObj [(''event'', JStr ''Loading''), (''start'', JStr ''08:00'')]])]"
  note t = event_keys_by_path [of "[?row]" sample_runtime "''http://localhost:8000/''" sample_fetch "()"
      ?payload "[JObj [(''event'', JStr ''Loading''), (''start'', JStr ''08:00'')]]" ?kvs "[?ev]" 0 ?upd]
  have 1: "get_prop (extractVesselDataFromCsv sample_runtime [?row]) ''events'' = JArr [?ev]"
    using t by (simp add: scenario_events)
  have 2: "exposes ?ev ''start''"
    using t by (simp add: scenario_events)
  have 3: "\<exists>res. extractEvents (Some ''http://localhost:8000/'') sample_fetch () = Inr res \<and>
      get_prop res ''events'' = JArr [JObj [(''event'', JStr ''Loading''), (''start'', JStr ''08:00'')]]"
    using t by (simp add: sample_fetch_def strip_trailing_slash_def)
  have 4: "\<exists>kvs' evs'. handleEventUpdate (JObj ?kvs) 0 ?upd = Inr (JObj kvs') \<and>
      get_prop (JObj kvs') ''events'' = JArr evs' \<and>
      exposes (evs' ! 0) ''start_time'' \<and> exposes (evs' ! 0) ''end_time'' \<and>
      get_prop (evs' ! 0) ''start'' = JStr ''09:00'' \<and> get_prop (evs' ! 0) ''end'' = JStr ''11:00''"
    using t by simp blast
  show ?thesis using 1 2 3 4 by blast
qed

text \<open>
  The claim as stated fails on the scenario of the specification: the one event that
  the CSV path makes of it has the keys name, start and end, and so does not expose both
  schemas.
\<close>

theorem both_schemas_counterexample:
  "processCsvFile sample_runtime scenario_csv =
     Inr (extractVesselDataFromCsv sample_runtime
            [[(''Vessel'', JStr ''MV TEST''), (''Event'', JStr ''Loading''),
              (''Start Time'', JStr ''08:00''), (''End Time'', JStr ''10:00'')]]) \<and>
   get_prop (extractVesselDataFromCsv sample_runtime
            [[(''Vessel'', JStr ''MV TEST''), (''Event'', JStr ''Loading''),
              (''Start Time'', JStr ''08:00''), (''End Time'', JStr ''10:00'')]]) ''events'' =
     JArr [JObj [(''name'', JStr ''Loading''), (''start'', JStr ''08:00''), (''end'', JStr ''10:00'')]] \<and>
   \<not> exposes_both_schemas
       (JObj [(''name'', JStr ''Loading''), (''start'', JStr ''08:00''), (''end'', JStr ''10:00'')])"
proof -
  let ?row = "[(''Vessel'', JStr ''MV TEST''), (''Event'', JStr ''Loading''),
        (''Start Time'', JStr ''08:00''), (''End Time'', JStr ''10:00'')]"
  have ne: "[?row] \<noteq> []" by simp
  have p: "processCsvFile sample_runtime scenario_csv = Inr (extractVesselDataFromCsv sample_runtime [?row])"
    using processCsvFile_rows [OF scenario_lines, of sample_runtime] by (simp only: scenario_rows)
  have e: "get_prop (extractVesselDataFromCsv sample_runtime [?row]) ''events'' = JArr (csv_events [?row])"
    by (simp add: extract_vessel [OF ne] vessel_record_events)
  have x: "\<not> exposes_both_schemas
       (JObj [(''name'', JStr ''Loading''), (''start'', JStr ''08:00''), (''end'', JStr ''10:00'')])"
    by (simp add: exposes_both_schemas_def exposes_def)
  show ?thesis using p e x by (simp add: scenario_events)
qed

section \<open>The missing-time predicate\<close>

text \<open>
  Claim C3. On an event, with \<open>start\<close> and \<open>end\<close> the two values the predicate reads
  from it, the missing-time predicate holds exactly when start is falsy, or end is falsy,
  or start is "--:--", or end is "--:--", or both start and end are "00:00"; the
  conjunction is nested inside the disjunction.
\<close>

theorem isMissingTime_spec:
  "\<not> nullish event \<Longrightarrow>
   isMissingTime event =
     (let start = get_prop event ''start_time''; endv = get_prop event ''end_time''
      in Inr (JBool (\<not> truthy start \<or> \<not> truthy endv \<or> start = JStr ''--:--'' \<or> endv = JStr ''--:--''
                     \<or> (start = JStr ''00:00'' \<and> endv = JStr ''00:00''))))"
  by (auto simp: isMissingTime_def Let_def js_or_def js_and_def js_not_def js_eq_str_def)

text \<open>The three values the specification lists: ("00:00","17:00"), ("","--:--"), ("00:00","00:00").\<close>

theorem isMissingTime_witness:
  "\<not> nullish (JObj [(''start_time'', JStr ''00:00''), (''end_time'', JStr ''17:00'')]) \<and>
   isMissingTime (JObj [(''start_time'', JStr ''00:00''), (''end_time'', JStr ''17:00'')]) = Inr (JBool False) \<and>
   isMissingTime (JObj [(''start_time'', JStr []), (''end_time'', JStr ''--:--'')]) = Inr (JBool True) \<and>
   isMissingTime (JObj [(''start_time'', JStr ''00:00''), (''end_time'', JStr ''00:00'')]) = Inr (JBool True)"
  using isMissingTime_spec [of "JObj [(''start_time'', JStr ''00:00''), (''end_time'', JStr ''17:00'')]"]
        isMissingTime_spec [of "JObj [(''start_time'', JStr []), (''end_time'', JStr ''--:--'')]"]
        isMissingTime_spec [of "JObj [(''start_time'', JStr ''00:00''), (''end_time'', JStr ''00:00'')]"]
  by (simp add: Let_def)

section \<open>The validation gate\<close>

text \<open>
  Claim C4, as amended. For every input whose events value is neither a string nor an
  object (null, missing fields, arrays, numbers and booleans included), the gate is
  truthy exactly when the input is not null, its vessel is truthy and its events are a
  non-empty sequence. For every input at all, a truthy gate means a truthy vessel and
  events other than the empty sequence, and the gate is truthy exactly when the input,
  its vessel and its events are truthy and the \<open>length\<close> of the events exceeds zero.
\<close>

theorem validateExtractedData_iff:
  "(\<not> counts_by_length (get_prop result ''events'') \<longrightarrow>
      truthy (validateExtractedData rt result) = spec_IsValid result) \<and>
   (truthy (validateExtractedData rt result) \<longrightarrow>
      truthy (get_prop result ''vessel'') \<and> get_prop result ''events'' \<noteq> JArr []) \<and>
   truthy (validateExtractedData rt result) =
     (truthy result \<and> truthy (get_prop result ''vessel'') \<and> truthy (get_prop result ''events'') \<and>
      truthy (js_gt_num rt (get_prop (get_prop result ''events'') ''length'') 0))"
  using validate_plain [of result rt]
  by (auto simp: validate_exact js_gt_num_def)

text \<open>A run of it: a result with one event, one with no event, and \<open>null\<close>.\<close>

theorem validateExtractedData_iff_witness:
  "\<not> counts_by_length (get_prop (JObj [(''vessel'', JStr ''MV TEST''),
        (''events'', JArr [JObj [(''name'', JStr ''Loading'')]])]) ''events'') \<and>
   truthy (validateExtractedData sample_runtime (JObj [(''vessel'', JStr ''MV TEST''),
        (''events'', JArr [JObj [(''name'', JStr ''Loading'')]])])) \<and>
   spec_IsValid (JObj [(''vessel'', JStr ''MV TEST''),
        (''events'', JArr [JObj [(''name'', JStr ''Loading'')]])]) \<and>
   \<not> truthy (validateExtractedData sample_runtime (JObj [(''vessel'', JStr ''MV TEST''), (''events'', JArr [])])) \<and>
   \<not> truthy (validateExtractedData sample_runtime JNull)"
  using validateExtractedData_iff [of "JObj [(''vessel'', JStr ''MV TEST''),
          (''events'', JArr [JObj [(''name'', JStr ''Loading'')]])]" sample_runtime]
        validateExtractedData_iff [of "JObj [(''vessel'', JStr ''MV TEST''), (''events'', JArr [])]" sample_runtime]
        validateExtractedData_iff [of JNull sample_runtime]
  by (simp add: counts_by_length_def spec_IsValid_def)

text \<open>
  The claim as stated fails on events that are not a sequence but answer a positive
  \<open>length\<close>: an object with a property \<open>length\<close>, or a non-empty string.
\<close>

theorem validateExtractedData_counterexample:
  "truthy (validateExtractedData sample_runtime
             (JObj [(''vessel'', JStr ''MV TEST''), (''events'', JObj [(''length'', JNum 1)])])) \<and>
   \<not> spec_IsValid (JObj [(''vessel'', JStr ''MV TEST''), (''events'', JObj [(''length'', JNum 1)])]) \<and>
   truthy (validateExtractedData sample_runtime
             (JObj [(''vessel'', JStr ''MV TEST''), (''events'', JStr ''abc'')])) \<and>
   \<not> spec_IsValid (JObj [(''vessel'', JStr ''MV TEST''), (''events'', JStr ''abc'')])"
  by (simp add: validate_exact js_gt_num_def spec_IsValid_def)

section \<open>The sanitizer\<close>

text \<open>
  Claim C5. For every result object with a sequence of events, the sanitizer returns an
  object whose events are exactly the input events with a truthy name, in their order,
  and whose every other field is the input's field, unchanged; no field is added: the
  keys of the output, as they are enumerated, are the keys of the input, as they are
  enumerated.
\<close>

theorem sanitize_keeps_named_events:
  assumes "get_prop (JObj kvs) ''events'' = JArr evs"
  shows "\<exists>kvs'. sanitizeDataBeforeSave (JObj kvs) = Inr (JObj kvs')
           \<and> get_prop (JObj kvs') ''events'' = JArr (filter (\<lambda>e. truthy (get_prop e ''name'')) evs)
           \<and> subseq (filter (\<lambda>e. truthy (get_prop e ''name'')) evs) evs
           \<and> (\<forall>k. k \<noteq> ''events'' \<longrightarrow> map_of kvs' k = map_of kvs k)
           \<and> map fst kvs' = map fst (own_props (JObj kvs))
           \<and> map fst (own_props (JObj kvs')) = map fst (own_props (JObj kvs))
           \<and> (own_props (JObj kvs) = kvs \<longrightarrow> map fst kvs' = map fst kvs)"
proof -
  let ?kvs' = "AList.update ''events'' (JArr (filter keep_event evs)) (own_props (JObj kvs))"
  have ev: "map_of kvs ''events'' = Some (JArr evs)"
    using assms by (simp split: option.splits)
  have s: "sanitizeDataBeforeSave (JObj kvs) = Inr (JObj ?kvs')"
    using assms by (rule sanitize_obj)
  have k: "keep_event = (\<lambda>e. truthy (get_prop e ''name''))"
    by (rule ext) (rule keep_event_name)
  have m: "''events'' \<in> fst ` set kvs" using ev by (metis map_of_eq_None_iff option.distinct(1))
  have keys: "map fst ?kvs' = map fst (own_props (JObj kvs))"
    using own_props_update_keys(1) [OF m] by (simp only: map_fst_own_props)
  have keys': "map fst (own_props (JObj ?kvs')) = map fst (own_props (JObj kvs))"
    using own_props_update_keys(2) [OF m] by (simp only: map_fst_own_props)
  have e: "get_prop (JObj ?kvs') ''events'' = JArr (filter (\<lambda>e. truthy (get_prop e ''name'')) evs)"
    by (simp add: get_prop_update k del: get_prop.simps own_props.simps)
  have o: "\<forall>k. k \<noteq> ''events'' \<longrightarrow> map_of ?kvs' k = map_of kvs k"
    by (simp add: update_conv' map_of_own_props del: own_props.simps)
  have c: "own_props (JObj kvs) = kvs \<longrightarrow> map fst ?kvs' = map fst kvs"
    using keys by metis
  show ?thesis
    using s e o keys keys' c by (intro exI [of _ ?kvs']) (simp del: own_props.simps get_prop.simps)
qed

text \<open>A run of it: three events, the second with an empty name, beside two other fields.\<close>

theorem sanitize_keeps_named_events_witness:
  "get_prop (JObj [(''vessel'', JStr ''MV TEST''), (''cargoQtyMt'', JNum 47000),
       (''events'', JArr [JObj [(''name'', JStr ''Loading'')], JObj [(''name'', JStr [])],
                          JObj [(''name'', JStr ''Sailing'')]])]) ''events'' =
     JArr [JObj [(''name'', JStr ''Loading'')], JObj [(''name'', JStr [])], JObj [(''name'', JStr ''Sailing'')]] \<and>
   (\<exists>kvs'. sanitizeDataBeforeSave (JObj [(''vessel'', JStr ''MV TEST''), (''cargoQtyMt'', JNum 47000),
       (''events'', JArr [JObj [(''name'', JStr ''Loading'')], JObj [(''name'', JStr [])],
                          JObj [(''name'', JStr ''Sailing'')]])]) = Inr (JObj kvs') \<and>
      get_prop (JObj kvs') ''events'' = JArr [JObj [(''name'', JStr ''Loading'')], JObj [(''name'', JStr ''Sailing'')]] \<and>
      get_prop (JObj kvs') ''cargoQtyMt'' = JNum 47000 \<and>
      map fst kvs' = [''vessel'', ''cargoQtyMt'', ''events''])"
proof -
  let ?evs = "[JObj [(''name'', JStr ''Loading'')], JObj [(''name'', JStr [])], JObj [(''name'', JStr ''Sailing'')]]"
  let ?kvs = "[(''vessel'', JStr ''MV TEST''), (''cargoQtyMt'', JNum 47000), (''events'', JArr ?evs)]"
  have h: "get_prop (JObj ?kvs) ''events'' = JArr ?evs" by simp
  from sanitize_keeps_named_events [OF h] obtain kvs' where
    "sanitizeDataBeforeSave (JObj ?kvs) = Inr (JObj kvs')"
    "get_prop (JObj kvs') ''events'' = JArr (filter (\<lambda>e. truthy (get_prop e ''name'')) ?evs)"
    "\<forall>k. k \<noteq> ''events'' \<longrightarrow> map_of kvs' k = map_of ?kvs k"
    "map fst kvs' = map fst (own_props (JObj ?kvs))"
    by blast
  then show ?thesis
    using h by (intro conjI exI [of _ kvs']) (simp_all add: object_keys_def is_array_index_def is_digit_def)
qed

section \<open>The vessel of a CSV file\<close>




section \<open>The extraction client\<close>

text \<open>
  Claim C7. On a response with success status whose body is a payload other than null,
  the client returns a result whose vessel is the payload's, or "Unknown Vessel" when
  the payload omits it (or holds a falsy one); whose cargo and port are the payload's,
  or the empty string; and whose events are the payload's when they are an array, and
  the empty sequence otherwise. A rejected request, a response without success status, a
  body that is not JSON and a missing or empty service address each end in the one
  failure \<open>ExtractionUnavailable\<close>, with no result.
\<close>

theorem extractEvents_contract:
  "(url \<noteq> [] \<and> fetch (strip_trailing_slash url @ ''/extract'') formData = FetchResponse True (Some data)
      \<and> \<not> nullish data \<longrightarrow>
      (\<exists>res. extractEvents (Some url) fetch formData = Inr res \<and>
         get_prop res ''vessel'' =
           (if truthy (get_prop data ''vessel'') then get_prop data ''vessel'' else JStr ''Unknown Vessel'') \<and>
         get_prop res ''cargo'' =
           (if truthy (get_prop data ''cargo'') then get_prop data ''cargo'' else JStr []) \<and>
         get_prop res ''port'' =
           (if truthy (get_prop data ''port'') then get_prop data ''port'' else JStr []) \<and>
         get_prop res ''events'' =
           (case get_prop data ''events'' of JArr evs \<Rightarrow> JArr evs | _ \<Rightarrow> JArr []))) \<and>
   (url \<noteq> [] \<and> (fetch (strip_trailing_slash url @ ''/extract'') formData = FetchRejected \<or>
                 (\<exists>body. fetch (strip_trailing_slash url @ ''/extract'') formData = FetchResponse False body) \<or>
                 fetch (strip_trailing_slash url @ ''/extract'') formData = FetchResponse True None) \<longrightarrow>
      extractEvents (Some url) fetch formData = Inl (ExtractionUnavailable ''Extraction service unavailable'')) \<and>
   extractEvents None fetch formData = Inl (ExtractionUnavailable ''No extraction service configured'') \<and>
   extractEvents (Some []) fetch formData = Inl (ExtractionUnavailable ''No extraction service configured'')"
  by (auto simp: extractEvents_def js_or_def)

text \<open>
  A run of it: a payload with a port and events but no vessel and no cargo, a service
  that answers without success status, and one that cannot be reached.
\<close>

theorem extractEvents_contract_witness:
  "(\<exists>res. extractEvents (Some ''http://localhost:8000/'') sample_fetch () = Inr res \<and>
      get_prop res ''vessel'' = JStr ''Unknown Vessel'' \<and>
      get_prop res ''cargo'' = JStr [] \<and>
      get_prop res ''port'' = JStr ''Haldia'' \<and>
      get_prop res ''events'' = JArr [JObj [(''event'', JStr ''Loading''), (''start'', JStr ''08:00'')]]) \<and>
   extractEvents (Some ''http://down'') sample_fetch () =
     Inl (ExtractionUnavailable ''Extraction service unavailable'') \<and>
   extractEvents (Some ''http://nowhere'') sample_fetch () =
     Inl (ExtractionUnavailable ''Extraction service unavailable'')"
proof -
  have a: "extractEvents (Some ''http://down'') sample_fetch () =
     Inl (ExtractionUnavailable ''Extraction service unavailable'')"
    using extractEvents_contract [of "''http://down''" sample_fetch "()"]
    by (simp add: sample_fetch_def strip_trailing_slash_def)
  have b: "extractEvents (Some ''http://nowhere'') sample_fetch () =
     Inl (ExtractionUnavailable ''Extraction service unavailable'')"
    using extractEvents_contract [of "''http://nowhere''" sample_fetch "()"]
    by (simp add: sample_fetch_def strip_trailing_slash_def)
  have c: "\<exists>res. extractEvents (Some ''http://localhost:8000/'') sample_fetch () = Inr res \<and>
      get_prop res ''vessel'' = JStr ''Unknown Vessel'' \<and>
      get_prop res ''cargo'' = JStr [] \<and>
      get_prop res ''port'' = JStr ''Haldia'' \<and>
      get_prop res ''events'' = JArr [JObj [(''event'', JStr ''Loading''), (''start'', JStr ''08:00'')]]"
    using extractEvents_contract [of "''http://localhost:8000/''" sample_fetch "()"
        "JObj [(''port'', JStr ''Haldia''),
               (''events'', JArr [JObj [(''event'', JStr ''Loading''), (''start'', JStr ''08:00'')]])]"]
    by (simp add: sample_fetch_def strip_trailing_slash_def)
  show ?thesis using a b c by blast
qed

section \<open>A rejected save\<close>

text \<open>
  Claim C8. For every result that fails the gate (a result with an empty event list
  among them), the save ends in \<open>ValidationFailed\<close> and the store after it is the store
  before it.
\<close>

theorem save_rejects_invalid:
  "\<not> truthy (validateExtractedData rt data) \<Longrightarrow>
   saveToLaytime rt clk data st =
     (ValidationFailed
        (if truthy data
         then ''Invalid or incomplete data. Cannot save. Please ensure all required fields are present.''
         else ''No data to save. Please extract data from a document first.''), st)"
  by (simp add: saveToLaytime_def)

text \<open>A run of it: a result with no events, and a store that holds one entry.\<close>

theorem save_rejects_invalid_witness:
  "\<not> truthy (validateExtractedData sample_runtime (JObj [(''vessel'', JStr ''MV TEST''), (''events'', JArr [])])) \<and>
   saveToLaytime sample_runtime sample_clock (JObj [(''vessel'', JStr ''MV TEST''), (''events'', JArr [])])
       (Json (JArr [JObj [(''id'', JNum 1)]])) =
     (ValidationFailed
        ''Invalid or incomplete data. Cannot save. Please ensure all required fields are present.'',
      Json (JArr [JObj [(''id'', JNum 1)]]))"
proof -
  have h: "\<not> truthy (validateExtractedData sample_runtime (JObj [(''vessel'', JStr ''MV TEST''), (''events'', JArr [])]))"
    by (simp add: validate_exact js_gt_num_def)
  show ?thesis
    using h save_rejects_invalid [OF h, of sample_clock "Json (JArr [JObj [(''id'', JNum 1)]])"] by simp
qed

section \<open>The two CSV serializers\<close>

text \<open>
  Claim C9. On every non-empty list of rows, the serializer of services/api.js writes the
  keys of the first row and then, for each row, every field quoted exactly when it is a
  string that contains a comma or a quote, with the quotes inside it doubled. On every
  list of events, the serializer of the pages writes its fixed header and then, for each
  event, the name wrapped in quotes whatever it contains and with the quotes inside it
  left alone. The two rules give the same text for a string exactly when it contains a
  comma and no quote. The two serializers are not extensionally equal: they differ on
  every list of events with the keys name, start and end, the empty list among them.
\<close>

theorem serializers_differ:
  "(list_all (\<lambda>r. \<not> nullish r) (row # rows) \<longrightarrow>
      convertToCSV rt (JArr (row # rows)) =
        Inr (join_with [CHR 0x0A]
               (join_with '','' (map fst (own_props row)) #
                map (\<lambda>r. join_with '',''
                            (map (\<lambda>header. case get_prop r header of
                                               JStr s \<Rightarrow> quoted_when_needed s
                                             | v \<Rightarrow> cell_text rt v)
                                 (map fst (own_props row))))
                    (row # rows)))) \<and>
   (get_prop (JObj kvs) ''events'' = JArr events \<and> list_all (\<lambda>e. \<not> nullish e) events \<longrightarrow>
      exportToCSV rt clk (JObj kvs) =
        Inr (Some (''laytime-events-'' @ iso_date clk @ ''.csv'',
                   join_with [CHR 0x0A]
                     (''Event Name,Start Time,End Time'' #
                      map (\<lambda>e. always_quoted (to_string rt (get_prop e ''name'')) @ '','' @
                                cell_text rt (get_prop e ''start'') @ '','' @
                                cell_text rt (get_prop e ''end''))
                          events)))) \<and>
   (quoted_when_needed s = always_quoted s \<longleftrightarrow> CHR '','' \<in> set s \<and> CHR 0x22 \<notin> set s) \<and>
   (CHR 0x22 \<in> set s \<longrightarrow>
      length (filter (\<lambda>c. c = CHR 0x22) (quoted_when_needed s)) =
        2 * length (filter (\<lambda>c. c = CHR 0x22) s) + 2 \<and>
      filter (\<lambda>c. c \<noteq> CHR 0x22) (quoted_when_needed s) = filter (\<lambda>c. c \<noteq> CHR 0x22) s) \<and>
   (list_all (\<lambda>e. map fst (own_props e) = [''name'', ''start'', ''end'']) events \<longrightarrow>
      map_sum id Some (convertToCSV rt (JArr events)) \<noteq>
      map_sum id (map_option snd) (exportToCSV rt clk (JObj [(''events'', JArr events)]))) \<and>
   (\<exists>events. map_sum id Some (convertToCSV rt (JArr events)) \<noteq>
              map_sum id (map_option snd) (exportToCSV rt clk (JObj [(''events'', JArr events)])))"
proof -
  have 1: "list_all (\<lambda>r. \<not> nullish r) (row # rows) \<longrightarrow>
      convertToCSV rt (JArr (row # rows)) =
        Inr (join_with [CHR 0x0A]
               (join_with '','' (map fst (own_props row)) #
                map (\<lambda>r. join_with '',''
                            (map (\<lambda>header. case get_prop r header of
                                               JStr s \<Rightarrow> quoted_when_needed s
                                             | v \<Rightarrow> cell_text rt v)
                                 (map fst (own_props row))))
                    (row # rows)))"
    using convertToCSV_rows by blast
  have 2: "get_prop (JObj kvs) ''events'' = JArr events \<and> list_all (\<lambda>e. \<not> nullish e) events \<longrightarrow>
      exportToCSV rt clk (JObj kvs) =
        Inr (Some (''laytime-events-'' @ iso_date clk @ ''.csv'',
                   join_with [CHR 0x0A]
                     (''Event Name,Start Time,End Time'' #
                      map (\<lambda>e. always_quoted (to_string rt (get_prop e ''name'')) @ '','' @
                                cell_text rt (get_prop e ''start'') @ '','' @
                                cell_text rt (get_prop e ''end''))
                          events)))"
    using exportToCSV_events by blast
  have 3: "quoted_when_needed s = always_quoted s \<longleftrightarrow> CHR '','' \<in> set s \<and> CHR 0x22 \<notin> set s"
    by (rule quoting_rules_agree)
  have 4: "CHR 0x22 \<in> set s \<longrightarrow>
      length (filter (\<lambda>c. c = CHR 0x22) (quoted_when_needed s)) =
        2 * length (filter (\<lambda>c. c = CHR 0x22) s) + 2 \<and>
      filter (\<lambda>c. c \<noteq> CHR 0x22) (quoted_when_needed s) = filter (\<lambda>c. c \<noteq> CHR 0x22) s"
    by (simp add: quoted_when_needed_def doubled_count doubled_rest)
  have 5: "list_all (\<lambda>e. map fst (own_props e) = [''name'', ''start'', ''end'']) events \<longrightarrow>
      map_sum id Some (convertToCSV rt (JArr events)) \<noteq>
      map_sum id (map_option snd) (exportToCSV rt clk (JObj [(''events'', JArr events)]))" for events
    using serializers_differ_on_events by blast
  have 6: "\<exists>events. map_sum id Some (convertToCSV rt (JArr events)) \<noteq>
              map_sum id (map_option snd) (exportToCSV rt clk (JObj [(''events'', JArr events)]))"
    using 5 [of "[]"] by auto
  show ?thesis using 1 2 3 4 5 6 by blast
qed

text \<open>
  A run of it: the events Loading and Say "hi", the second going out as "Say ""hi"""
  from the one serializer and as "Say "hi"" from the other.
\<close>

theorem serializers_differ_witness:
  "convertToCSV sample_runtime
     (JArr [JObj [(''name'', JStr ''Loading''), (''start'', JStr ''08:00''), (''end'', JStr ''10:00'')],
            JObj [(''name'', JStr (''Say '' @ [CHR 0x22] @ ''hi'' @ [CHR 0x22])), (''start'', JStr ''09:00''),
                  (''end'', JStr ''11:00'')]]) =
     Inr (''name,start,end'' @ [CHR 0x0A] @ ''Loading,08:00,10:00'' @ [CHR 0x0A] @
          [CHR 0x22] @ ''Say '' @ [CHR 0x22, CHR 0x22] @ ''hi'' @ [CHR 0x22, CHR 0x22] @ [CHR 0x22]
            @ '',09:00,11:00'') \<and>
   exportToCSV sample_runtime sample_clock (JObj [(''events'',
      JArr [JObj [(''name'', JStr ''Loading''), (''start'', JStr ''08:00''), (''end'', JStr ''10:00'')],
            JObj [(''name'', JStr (''Say '' @ [CHR 0x22] @ ''hi'' @ [CHR 0x22])), (''start'', JStr ''09:00''),
                  (''end'', JStr ''11:00'')]])]) =
     Inr (Some (''laytime-events-2023-11-14.csv'',
                ''Event Name,Start Time,End Time'' @ [CHR 0x0A] @
                [CHR 0x22] @ ''Loading'' @ [CHR 0x22] @ '',08:00,10:00'' @ [CHR 0x0A] @
                [CHR 0x22] @ ''Say '' @ [CHR 0x22] @ ''hi'' @ [CHR 0x22] @ [CHR 0x22] @ '',09:00,11:00'')) \<and>
   quoted_when_needed ''a,b'' = always_quoted ''a,b'' \<and>
   quoted_when_needed ''Loading'' \<noteq> always_quoted ''Loading''"
proof -
  let ?e1 = "JObj [(''name'', JStr ''Loading''), (''start'', JStr ''08:00''), (''end'', JStr ''10:00'')]"
  let ?e2 = "JObj [(''name'', JStr (''Say '' @ [CHR 0x22] @ ''hi'' @ [CHR 0x22])), (''start'', JStr ''09:00''),
                  (''end'', JStr ''11:00'')]"
  note t = serializers_differ [of ?e1 "[?e2]" sample_runtime "[(''events'', JArr [?e1, ?e2])]"
      "[?e1, ?e2]" sample_clock]
  have a: "convertToCSV sample_runtime (JArr [?e1, ?e2]) =
     Inr (''name,start,end'' @ [CHR 0x0A] @ ''Loading,08:00,10:00'' @ [CHR 0x0A] @
          [CHR 0x22] @ ''Say '' @ [CHR 0x22, CHR 0x22] @ ''hi'' @ [CHR 0x22, CHR 0x22] @ [CHR 0x22]
            @ '',09:00,11:00'')"
    using t [of "''a,b''"]
    by (simp add: object_keys_def is_array_index_def is_digit_def quoted_when_needed_def)
  have b: "exportToCSV sample_runtime sample_clock (JObj [(''events'', JArr [?e1, ?e2])]) =
     Inr (Some (''laytime-events-2023-11-14.csv'',
                ''Event Name,Start Time,End Time'' @ [CHR 0x0A] @
                [CHR 0x22] @ ''Loading'' @ [CHR 0x22] @ '',08:00,10:00'' @ [CHR 0x0A] @
                [CHR 0x22] @ ''Say '' @ [CHR 0x22] @ ''hi'' @ [CHR 0x22] @ [CHR 0x22] @ '',09:00,11:00''))"
    using t [of "''a,b''"]
    by (simp add: always_quoted_def cell_text_def iso_date_def sample_clock_def)
  have c: "quoted_when_needed ''a,b'' = always_quoted ''a,b''"
    using t [of "''a,b''"] by simp
  have d: "quoted_when_needed ''Loading'' \<noteq> always_quoted ''Loading''"
    using t [of "''Loading''"] by simp
  show ?thesis using a b c d by blast
qed

section \<open>CSV events in the event table\<close>

text \<open>
  Claim C10. Every event of the CSV path has the keys name, start and end and no other,
  so neither start_time nor end_time; the missing-time predicate of the table, which
  reads start_time and end_time, is true of it whatever its start and end are.
\<close>

theorem csv_events_flagged_missing:
  assumes "csvData \<noteq> []"
  shows "get_prop (extractVesselDataFromCsv rt csvData) ''events'' = JArr (csv_events csvData) \<and>
         (\<forall>e \<in> set (csv_events csvData).
            map fst (own_props e) = [''name'', ''start'', ''end''] \<and>
            isMissingTime e = Inr (JBool True))"
  by (auto simp: extract_vessel [OF assms] vessel_record_events csv_events_def csv_event_missing)
     (simp add: csv_event_def object_keys_def is_array_index_def is_digit_def)

text \<open>A run of it: the scenario row, whose event runs from 08:00 to 10:00.\<close>

theorem csv_events_flagged_missing_witness:
  "[[(''Vessel'', JStr ''MV TEST''), (''Event'', JStr ''Loading''),
     (''Start Time'', JStr ''08:00''), (''End Time'', JStr ''10:00'')]] \<noteq> [] \<and>
   get_prop (extractVesselDataFromCsv sample_runtime
     [[(''Vessel'', JStr ''MV TEST''), (''Event'', JStr ''Loading''),
       (''Start Time'', JStr ''08:00''), (''End Time'', JStr ''10:00'')]]) ''events'' =
     JArr [JObj [(''name'', JStr ''Loading''), (''start'', JStr ''08:00''), (''end'', JStr ''10:00'')]] \<and>
   isMissingTime (JObj [(''name'', JStr ''Loading''), (''start'', JStr ''08:00''), (''end'', JStr ''10:00'')])
     = Inr (JBool True)"
proof -
  let ?row = "[(''Vessel'', JStr ''MV TEST''), (''Event'', JStr ''Loading''),
     (''Start Time'', JStr ''08:00''), (''End Time'', JStr ''10:00'')]"
  have ne: "[?row] \<noteq> []" by simp
  show ?thesis using csv_events_flagged_missing [OF ne, of sample_runtime] by (simp add: scenario_events)
qed

end
